theory Spec2Isabelle
  imports Complex_Main
begin

unbundle bit_operations_syntax

section \<open>Values of the host language and of the maths library\<close>

text \<open>
  The entities of \<^verbatim>\<open>GameEntity\<close> are JavaScript objects that point at one another, so
  the model keeps them in a store indexed by references. Numbers are IEEE doubles in the
  source; the model leaves the number type \<open>'n\<close> and the matrix type \<open>'m\<close> open and takes
  every operation of \<^verbatim>\<open>Math\<close> and of the Babylon maths classes as a parameter, so that
  nothing proved below depends on rounding.
\<close>

type_synonym ref = nat

datatype 'n Vector3 = Vector3 'n 'n 'n

datatype 'n Quaternion = Quaternion 'n 'n 'n 'n

text \<open>
  A slot of \<^verbatim>\<open>children\<close>, \<^verbatim>\<open>neighbors\<close> or \<^verbatim>\<open>parent\<close> holds an entity, or, between
  \<^verbatim>\<open>fromJSON\<close> and \<^verbatim>\<open>resolveReferences\<close>, an identifier string, or \<^verbatim>\<open>undefined\<close>
  where a lookup found nothing. \<^verbatim>\<open>null\<close> in \<^verbatim>\<open>parent\<close> is \<open>None\<close>.
\<close>

datatype link = Ent ref | Uid string | Undefined

datatype jsvalue =
    JSUndefined | JSNull | JSBoolean bool | JSString string | JSObject nat | JSFunction nat

datatype error = TypeError | Error string

text \<open>What the entity does to its surroundings: the console, the manager, the render callback.\<close>

datatype 'n event =
    ConsoleError string
  | ManagerSendMessage nat ref ref string 'n jsvalue
  | RenderCallback nat jsvalue "'n Vector3" "'n Quaternion" "'n Vector3"

record 'n Math =
  num :: "real \<Rightarrow> 'n"
  undefined_num :: 'n
  Math_PI :: 'n
  Math_max :: "'n \<Rightarrow> 'n \<Rightarrow> 'n"
  Math_min :: "'n \<Rightarrow> 'n \<Rightarrow> 'n"
  Math_acos :: "'n \<Rightarrow> 'n"
  Math_random :: "nat \<Rightarrow> 'n"
  isNaN :: "'n \<Rightarrow> bool"
  times_num :: "'n \<Rightarrow> 'n \<Rightarrow> 'n"
  divide_num :: "'n \<Rightarrow> 'n \<Rightarrow> 'n"
  less_num :: "'n \<Rightarrow> 'n \<Rightarrow> bool"
  toInt32 :: "'n \<Rightarrow> int"

record ('n, 'm) Babylon =
  Vector3_equalsWithEpsilon :: "'n Vector3 \<Rightarrow> 'n Vector3 \<Rightarrow> 'n \<Rightarrow> bool"
  Quaternion_equalsWithEpsilon :: "'n Quaternion \<Rightarrow> 'n Quaternion \<Rightarrow> 'n \<Rightarrow> bool"
  Matrix_new :: 'm
  Matrix_ComposeToRef :: "'n Vector3 \<Rightarrow> 'n Quaternion \<Rightarrow> 'n Vector3 \<Rightarrow> 'm"
  Matrix_multiply :: "'m \<Rightarrow> 'm \<Rightarrow> 'm"
  Matrix_decompose :: "'m \<Rightarrow> 'n Vector3 \<times> 'n Quaternion \<times> 'n Vector3"
  Matrix_getTranslation :: "'m \<Rightarrow> 'n Vector3"
  Matrix_asArray :: "'m \<Rightarrow> 'n list"
  Matrix_fromArray :: "'n list \<Rightarrow> 'm"
  Vector3_subtract :: "'n Vector3 \<Rightarrow> 'n Vector3 \<Rightarrow> 'n Vector3"
  Vector3_normalize :: "'n Vector3 \<Rightarrow> 'n Vector3"
  Quaternion_normalize :: "'n Quaternion \<Rightarrow> 'n Quaternion"
  Quaternion_Dot :: "'n Quaternion \<Rightarrow> 'n Quaternion \<Rightarrow> 'n"
  Quaternion_Slerp :: "'n Quaternion \<Rightarrow> 'n Quaternion \<Rightarrow> 'n \<Rightarrow> 'n Quaternion"
  Quaternion_FromLookDirectionLH :: "'n Vector3 \<Rightarrow> 'n Vector3 \<Rightarrow> 'n Quaternion"
  Quaternion_invert :: "'n Quaternion \<Rightarrow> 'n Quaternion"
  Quaternion_multiply :: "'n Quaternion \<Rightarrow> 'n Quaternion \<Rightarrow> 'n Quaternion"

section \<open>The entity and the store\<close>

text \<open>
  The fields of the constructor, in its order. A private field \<^verbatim>\<open>_f\<close> is written
  \<open>p_f\<close>. \<open>p_debugId\<close> exists in the newest version of the class only.
\<close>

record ('n, 'm) GameEntity =
  name :: string
  active :: bool
  children :: "link list"
  parent :: "link option"
  neighbors :: "link list"
  neighborhoodRadius :: 'n
  updateNeighborhood :: bool
  p_position :: "'n Vector3"
  p_rotation :: "'n Quaternion"
  p_scale :: "'n Vector3"
  p_worldPosition :: "'n Vector3"
  p_worldRotation :: "'n Quaternion"
  p_worldScale :: "'n Vector3"
  forward :: "'n Vector3"
  up :: "'n Vector3"
  boundingRadius :: 'n
  maxTurnRate :: 'n
  canActivateTrigger :: bool
  manager :: "nat option"
  p_localMatrix :: 'm
  p_worldMatrix :: 'm
  p_worldMatrixDirty :: bool
  p_localMatrixDirty :: bool
  p_transformDirty :: bool
  p_renderComponent :: jsvalue
  p_renderComponentCallback :: jsvalue
  p_started :: bool
  p_uuid :: "string option"
  p_debugId :: string

record ('n, 'm) world =
  ents :: "ref \<Rightarrow> ('n, 'm) GameEntity"
  events :: "'n event list"
  random_calls :: nat

definition upd :: "ref \<Rightarrow> (('n, 'm) GameEntity \<Rightarrow> ('n, 'm) GameEntity) \<Rightarrow> ('n, 'm) world \<Rightarrow> ('n, 'm) world" where
  "upd r f w = w\<lparr>ents := (ents w)(r := f (ents w r))\<rparr>"

text \<open>The constructor of \<^verbatim>\<open>GameEntity_OLD_2.js\<close> (first class of the file).\<close>

definition new_GameEntity :: "'n Math \<Rightarrow> ('n, 'm) Babylon \<Rightarrow> ('n, 'm) GameEntity" where
  "new_GameEntity M B =
     \<lparr> name = '''', active = True, children = [], parent = None, neighbors = [],
       neighborhoodRadius = num M 1, updateNeighborhood = False,
       p_position = Vector3 (num M 0) (num M 0) (num M 0),
       p_rotation = Quaternion (num M 0) (num M 0) (num M 0) (num M 1),
       p_scale = Vector3 (num M 1) (num M 1) (num M 1),
       p_worldPosition = Vector3 (num M 0) (num M 0) (num M 0),
       p_worldRotation = Quaternion (num M 0) (num M 0) (num M 0) (num M 1),
       p_worldScale = Vector3 (num M 1) (num M 1) (num M 1),
       forward = Vector3 (num M 0) (num M 0) (num M 1),
       up = Vector3 (num M 0) (num M 1) (num M 0),
       boundingRadius = num M 0, maxTurnRate = Math_PI M, canActivateTrigger = True,
       manager = None, p_localMatrix = Matrix_new B, p_worldMatrix = Matrix_new B,
       p_worldMatrixDirty = True, p_localMatrixDirty = True, p_transformDirty = True,
       p_renderComponent = JSNull, p_renderComponentCallback = JSNull,
       p_started = False, p_uuid = None, p_debugId = '''' \<rparr>"

text \<open>An indexed read of a JavaScript array: \<^verbatim>\<open>undefined\<close> past the end.\<close>

definition array_get :: "'n \<Rightarrow> 'n list \<Rightarrow> nat \<Rightarrow> 'n" where
  "array_get undef ns i = (if i < length ns then ns ! i else undef)"

section \<open>Hierarchy: \<^verbatim>\<open>add\<close> and \<^verbatim>\<open>remove\<close>\<close>

text \<open>\<^verbatim>\<open>Array.prototype.indexOf\<close> and \<^verbatim>\<open>splice(index, 1)\<close>.\<close>

fun indexOf :: "'a list \<Rightarrow> 'a \<Rightarrow> int" where
  "indexOf [] a = - 1"
| "indexOf (b # bs) a = (if b = a then 0 else (let i = indexOf bs a in if i = - 1 then - 1 else i + 1))"

definition splice1 :: "int \<Rightarrow> 'a list \<Rightarrow> 'a list" where
  "splice1 i bs = take (nat i) bs @ drop (nat i + 1) bs"

text \<open>
  \<^verbatim>\<open>remove(entity)\<close>, lines 222-230. The methods return \<^verbatim>\<open>this\<close> for chaining; the
  model returns the store instead.
\<close>

definition remove :: "ref \<Rightarrow> ref \<Rightarrow> ('n, 'm) world \<Rightarrow> ('n, 'm) world" where
  "remove this entity w =
     (let index = indexOf (children (ents w this)) (Ent entity) in
      if index \<noteq> - 1 then
        (let w1 = upd this (\<lambda>e. e\<lparr>children := splice1 index (children e)\<rparr>) w;
             w2 = upd entity (\<lambda>e. e\<lparr>parent := None\<rparr>) w1
         in upd entity (\<lambda>e. e\<lparr>p_worldMatrixDirty := True\<rparr>) w2)
      else w)"

text \<open>
  \<^verbatim>\<open>add(entity)\<close>, lines 206-215. \<^verbatim>\<open>entity.parent.remove(entity)\<close> is a call on whatever
  the slot holds: on an identifier string or on \<^verbatim>\<open>undefined\<close> it throws a TypeError.
\<close>

definition add :: "ref \<Rightarrow> ref \<Rightarrow> ('n, 'm) world \<Rightarrow> error option \<times> ('n, 'm) world" where
  "add this entity w =
     (let attach = (\<lambda>w0.
            let w1 = upd this (\<lambda>e. e\<lparr>children := children e @ [Ent entity]\<rparr>) w0;
                w2 = upd entity (\<lambda>e. e\<lparr>parent := Some (Ent this)\<rparr>) w1
            in upd entity (\<lambda>e. e\<lparr>p_worldMatrixDirty := True\<rparr>) w2)
      in case parent (ents w entity) of
           None \<Rightarrow> (None, attach w)
         | Some (Ent q) \<Rightarrow> (None, attach (remove q entity w))
         | Some (Uid s) \<Rightarrow> (Some TypeError, w)
         | Some Undefined \<Rightarrow> (Some TypeError, w))"

section \<open>Matrix cache and transform setters\<close>

text \<open>
  \<^verbatim>\<open>for (const child of this.children) child._worldMatrixDirty = true\<close>. The class is an
  ES module, hence strict code: assigning a property on an identifier string or on
  \<^verbatim>\<open>undefined\<close> throws a TypeError, and the loop stops there.
\<close>

fun markChildren :: "link list \<Rightarrow> ('n, 'm) world \<Rightarrow> error option \<times> ('n, 'm) world" where
  "markChildren [] w = (None, w)"
| "markChildren (Ent c # cs) w = markChildren cs (upd c (\<lambda>e. e\<lparr>p_worldMatrixDirty := True\<rparr>) w)"
| "markChildren (Uid s # cs) w = (Some TypeError, w)"
| "markChildren (Undefined # cs) w = (Some TypeError, w)"

text \<open>\<^verbatim>\<open>_markDirty()\<close>, lines 497-505.\<close>

definition markDirty :: "ref \<Rightarrow> ('n, 'm) world \<Rightarrow> error option \<times> ('n, 'm) world" where
  "markDirty this w =
     (let w1 = upd this (\<lambda>e. e\<lparr>p_localMatrixDirty := True\<rparr>) w;
          w2 = upd this (\<lambda>e. e\<lparr>p_worldMatrixDirty := True\<rparr>) w1
      in markChildren (children (ents w2 this)) w2)"

text \<open>
  The three property setters, lines 131-160. \<^verbatim>\<open>copyFrom\<close> copies the components into the
  entity's own vector, so the stored value is the argument's value.
\<close>

definition set_position ::
  "'n Math \<Rightarrow> ('n, 'm) Babylon \<Rightarrow> ref \<Rightarrow> 'n Vector3 \<Rightarrow> ('n, 'm) world \<Rightarrow> error option \<times> ('n, 'm) world" where
  "set_position M B this val w =
     (if \<not> Vector3_equalsWithEpsilon B (p_position (ents w this)) val (num M 0.0001)
      then markDirty this (upd this (\<lambda>e. e\<lparr>p_position := val\<rparr>) w)
      else (None, w))"

definition set_rotation ::
  "'n Math \<Rightarrow> ('n, 'm) Babylon \<Rightarrow> ref \<Rightarrow> 'n Quaternion \<Rightarrow> ('n, 'm) world \<Rightarrow> error option \<times> ('n, 'm) world" where
  "set_rotation M B this val w =
     (if \<not> Quaternion_equalsWithEpsilon B (p_rotation (ents w this)) val (num M 0.0001)
      then markDirty this (upd this (\<lambda>e. e\<lparr>p_rotation := val\<rparr>) w)
      else (None, w))"

definition set_scale ::
  "'n Math \<Rightarrow> ('n, 'm) Babylon \<Rightarrow> ref \<Rightarrow> 'n Vector3 \<Rightarrow> ('n, 'm) world \<Rightarrow> error option \<times> ('n, 'm) world" where
  "set_scale M B this val w =
     (if \<not> Vector3_equalsWithEpsilon B (p_scale (ents w this)) val (num M 0.0001)
      then markDirty this (upd this (\<lambda>e. e\<lparr>p_scale := val\<rparr>) w)
      else (None, w))"

text \<open>\<^verbatim>\<open>_updateLocalMatrix()\<close>, lines 468-474.\<close>

definition updateLocalMatrix :: "('n, 'm) Babylon \<Rightarrow> ref \<Rightarrow> ('n, 'm) world \<Rightarrow> ('n, 'm) world" where
  "updateLocalMatrix B this w =
     (if p_localMatrixDirty (ents w this) then
        (let w1 = upd this (\<lambda>e. e\<lparr>p_localMatrix :=
                     Matrix_ComposeToRef B (p_scale e) (p_rotation e) (p_position e)\<rparr>) w;
             w2 = upd this (\<lambda>e. e\<lparr>p_localMatrixDirty := False\<rparr>) w1
         in upd this (\<lambda>e. e\<lparr>p_worldMatrixDirty := True\<rparr>) w2)
      else w)"

text \<open>
  The tail of \<^verbatim>\<open>_updateWorldMatrix()\<close>, lines 488-494: clear the flag, raise
  \<^verbatim>\<open>_transformDirty\<close>, mark the children.
\<close>

definition finishWorldMatrix :: "ref \<Rightarrow> ('n, 'm) world \<Rightarrow> error option \<times> ('n, 'm) world" where
  "finishWorldMatrix this w =
     (let w1 = upd this (\<lambda>e. e\<lparr>p_worldMatrixDirty := False\<rparr>) w;
          w2 = upd this (\<lambda>e. e\<lparr>p_transformDirty := True\<rparr>) w1
      in markChildren (children (ents w2 this)) w2)"

text \<open>
  \<^verbatim>\<open>_updateWorldMatrix()\<close>, lines 476-495. The method calls itself on the parent, and
  nothing bounds the chain of parents, so the result is an option: \<open>None\<close> is a call whose
  recursion never ends, which happens on a cycle of parents only (an engine cuts such a
  call off with a RangeError when its stack is exhausted; the statements below are about
  chains that end at a root). \<^verbatim>\<open>if (this.parent)\<close> is a truthiness test:
  \<^verbatim>\<open>null\<close>, \<^verbatim>\<open>undefined\<close> and the empty string take the else branch; a non-empty
  identifier string takes the then branch, where the method call on it throws.
\<close>

partial_function (option) updateWorldMatrix ::
  "('n, 'm) Babylon \<Rightarrow> ref \<Rightarrow> ('n, 'm) world \<Rightarrow> (error option \<times> ('n, 'm) world) option" where
  "updateWorldMatrix B this w =
     (if \<not> p_worldMatrixDirty (ents w this) then Some (None, w)
      else
        (let w1 = updateLocalMatrix B this w;
             root = Some (finishWorldMatrix this
                      (upd this (\<lambda>e. e\<lparr>p_worldMatrix := p_localMatrix e\<rparr>) w1))
         in case parent (ents w1 this) of
              None \<Rightarrow> root
            | Some Undefined \<Rightarrow> root
            | Some (Uid s) \<Rightarrow> (if s = [] then root else Some (Some TypeError, w1))
            | Some (Ent p) \<Rightarrow>
                Option.bind (updateWorldMatrix B p w1)
                  (\<lambda>r. case r of
                          (Some err, w2) \<Rightarrow> Some (Some err, w2)
                        | (None, w2) \<Rightarrow>
                            Some (finishWorldMatrix this
                              (upd this (\<lambda>e. e\<lparr>p_worldMatrix :=
                                 Matrix_multiply B (p_localMatrix e) (p_worldMatrix (ents w2 p))\<rparr>) w2)))))"

text \<open>\<^verbatim>\<open>get worldMatrix()\<close>, lines 167-170: update, then hand out the stored matrix.\<close>

definition get_worldMatrix ::
  "('n, 'm) Babylon \<Rightarrow> ref \<Rightarrow> ('n, 'm) world \<Rightarrow> ((error + 'm) \<times> ('n, 'm) world) option" where
  "get_worldMatrix B this w =
     Option.bind (updateWorldMatrix B this w)
       (\<lambda>r. case r of
               (Some err, w1) \<Rightarrow> Some (Inl err, w1)
             | (None, w1) \<Rightarrow> Some (Inr (p_worldMatrix (ents w1 this)), w1))"

section \<open>Orientation steering\<close>

text \<open>
  \<^verbatim>\<open>_rotateTowards(targetRotation, maxAngle, tolerance)\<close>, lines 507-523. Every write
  goes through the object that the \<^verbatim>\<open>rotation\<close> getter hands out (\<^verbatim>\<open>normalize\<close>,
  \<^verbatim>\<open>copyFrom\<close>, \<^verbatim>\<open>SlerpToRef\<close> with the rotation as result), so no dirty flag moves.
  The result is the returned boolean and the store.
\<close>

definition rotateTowards ::
  "'n Math \<Rightarrow> ('n, 'm) Babylon \<Rightarrow> ref \<Rightarrow> 'n Quaternion \<Rightarrow> 'n \<Rightarrow> 'n \<Rightarrow> ('n, 'm) world
     \<Rightarrow> bool \<times> ('n, 'm) world" where
  "rotateTowards M B this targetRotation maxAngle tolerance w =
     (let w1 = upd this (\<lambda>e. e\<lparr>p_rotation := Quaternion_normalize B (p_rotation e)\<rparr>) w;
          target = Quaternion_normalize B targetRotation;
          dot = Quaternion_Dot B (p_rotation (ents w1 this)) target;
          clampedDot = Math_max M (num M (- 1)) (Math_min M (num M 1) dot);
          angle = times_num M (num M 2) (Math_acos M clampedDot)
      in if less_num M angle tolerance \<or> isNaN M angle
         then (True, upd this (\<lambda>e. e\<lparr>p_rotation := target\<rparr>) w1)
         else
           (let t = Math_min M (num M 1) (divide_num M maxAngle angle)
            in (False, upd this (\<lambda>e. e\<lparr>p_rotation := Quaternion_Slerp B (p_rotation e) target t\<rparr>) w1)))"





section \<open>Writes through the getters\<close>

text \<open>
  \<^verbatim>\<open>get position()\<close>, \<^verbatim>\<open>get rotation()\<close> and \<^verbatim>\<open>get scale()\<close> (lines 127-153) return
  the entity's own \<^verbatim>\<open>_position\<close>, \<^verbatim>\<open>_rotation\<close> and \<^verbatim>\<open>_scale\<close> objects. A caller
  that mutates what it got, as \<^verbatim>\<open>entity1.position.set(1, 0, 3)\<close> in \<^verbatim>\<open>scene.ts\<close> does,
  writes the components of the stored object and runs no code of the entity.
\<close>

definition position_set :: "ref \<Rightarrow> 'n \<Rightarrow> 'n \<Rightarrow> 'n \<Rightarrow> ('n, 'm) world \<Rightarrow> ('n, 'm) world" where
  "position_set this a b c w = upd this (\<lambda>e. e\<lparr>p_position := Vector3 a b c\<rparr>) w"

definition rotation_set :: "ref \<Rightarrow> 'n \<Rightarrow> 'n \<Rightarrow> 'n \<Rightarrow> 'n \<Rightarrow> ('n, 'm) world \<Rightarrow> ('n, 'm) world" where
  "rotation_set this a b c d w = upd this (\<lambda>e. e\<lparr>p_rotation := Quaternion a b c d\<rparr>) w"

definition scale_set :: "ref \<Rightarrow> 'n \<Rightarrow> 'n \<Rightarrow> 'n \<Rightarrow> ('n, 'm) world \<Rightarrow> ('n, 'm) world" where
  "scale_set this a b c w = upd this (\<lambda>e. e\<lparr>p_scale := Vector3 a b c\<rparr>) w"

section \<open>Identity\<close>

text \<open>
  \<^verbatim>\<open>Number.prototype.toString(16)\<close> on an integer: lowercase digits, no leading zero,
  a minus sign for a negative number.
\<close>

definition hexDigit :: "nat \<Rightarrow> char" where
  "hexDigit d = ''0123456789abcdef'' ! (d mod 16)"

fun hexNat :: "nat \<Rightarrow> string" where
  "hexNat n = (if n < 16 then [hexDigit n] else hexNat (n div 16) @ [hexDigit (n mod 16)])"

definition toString16 :: "int \<Rightarrow> string" where
  "toString16 v = (if v < 0 then CHR ''-'' # hexNat (nat (- v)) else hexNat (nat v))"

text \<open>
  \<^verbatim>\<open>_generateUUID()\<close>, lines 525-531: \<^verbatim>\<open>replace(/[xy]/g, f)\<close> walks the template from
  the left and calls \<^verbatim>\<open>f\<close> once per \<^verbatim>\<open>x\<close> or \<^verbatim>\<open>y\<close>; each call draws one random
  number. The counter is the number of draws made so far.
\<close>

fun replace_xy :: "'n Math \<Rightarrow> string \<Rightarrow> nat \<Rightarrow> string \<times> nat" where
  "replace_xy M [] k = ([], k)"
| "replace_xy M (c # cs) k =
     (if c = CHR ''x'' \<or> c = CHR ''y'' then
        (let r = toInt32 M (times_num M (Math_random M k) (num M 16));
             v = (if c = CHR ''x'' then r else (r AND 3) OR 8)
         in case replace_xy M cs (Suc k) of (rest, k') \<Rightarrow> (toString16 v @ rest, k'))
      else (case replace_xy M cs k of (rest, k') \<Rightarrow> (c # rest, k')))"

definition generateUUID :: "'n Math \<Rightarrow> nat \<Rightarrow> string \<times> nat" where
  "generateUUID M k = replace_xy M ''xxxxxxxx-xxxx-4xxx-yxxx-xxxxxxxxxxxx'' k"

text \<open>\<^verbatim>\<open>get uuid()\<close>, lines 177-182.\<close>

definition get_uuid :: "'n Math \<Rightarrow> ref \<Rightarrow> ('n, 'm) world \<Rightarrow> string \<times> ('n, 'm) world" where
  "get_uuid M this w =
     (case p_uuid (ents w this) of
        None \<Rightarrow>
          (case generateUUID M (random_calls w) of
             (u, k') \<Rightarrow> (u, (upd this (\<lambda>e. e\<lparr>p_uuid := Some u\<rparr>) w)\<lparr>random_calls := k'\<rparr>))
      | Some u \<Rightarrow> (u, w))"

text \<open>
  The format of the specification: the template \<^verbatim>\<open>xxxxxxxx-xxxx-4xxx-yxxx-xxxxxxxxxxxx\<close>
  with a lowercase hexadecimal digit for every \<^verbatim>\<open>x\<close> and one of 8, 9, a, b for \<^verbatim>\<open>y\<close>.
\<close>

fun matches_template :: "string \<Rightarrow> string \<Rightarrow> bool" where
  "matches_template [] [] = True"
| "matches_template (t # ts) (c # cs) =
     ((if t = CHR ''x'' then c \<in> set ''0123456789abcdef''
       else if t = CHR ''y'' then c \<in> set ''89ab''
       else c = t) \<and> matches_template ts cs)"
| "matches_template [] (c # cs) = False"
| "matches_template (t # ts) [] = False"

definition uuid_format :: "string \<Rightarrow> bool" where
  "uuid_format u = matches_template ''xxxxxxxx-xxxx-4xxx-yxxx-xxxxxxxxxxxx'' u"

section \<open>Serialization and reference resolution\<close>

text \<open>The object that \<^verbatim>\<open>toJSON\<close> builds and \<^verbatim>\<open>fromJSON\<close> reads, field by field.\<close>

record 'n json =
  j_type :: string
  j_uuid :: string
  j_name :: string
  j_active :: bool
  j_children :: "link list"
  j_parent :: "link option"
  j_neighbors :: "link list"
  j_neighborhoodRadius :: 'n
  j_updateNeighborhood :: bool
  j_position :: "'n list"
  j_rotation :: "'n list"
  j_scale :: "'n list"
  j_forward :: "'n list"
  j_up :: "'n list"
  j_boundingRadius :: 'n
  j_maxTurnRate :: 'n
  j_canActivateTrigger :: bool
  j_worldMatrix :: "'n list"
  j_localMatrix :: "'n list"
  j_started :: bool

fun Vector3_asArray :: "'n Vector3 \<Rightarrow> 'n list" where
  "Vector3_asArray (Vector3 a b c) = [a, b, c]"

fun Quaternion_asArray :: "'n Quaternion \<Rightarrow> 'n list" where
  "Quaternion_asArray (Quaternion a b c d) = [a, b, c, d]"

text \<open>
  \<^verbatim>\<open>fromArray\<close> reads \<^verbatim>\<open>array[0]\<close>, \<^verbatim>\<open>array[1]\<close>, ...; past the end of the array
  JavaScript reads \<^verbatim>\<open>undefined\<close>, which the component then holds.
\<close>

definition Vector3_fromArray :: "'n Math \<Rightarrow> 'n list \<Rightarrow> 'n Vector3" where
  "Vector3_fromArray M ns =
     Vector3 (array_get (undefined_num M) ns 0) (array_get (undefined_num M) ns 1)
             (array_get (undefined_num M) ns 2)"

definition Quaternion_fromArray :: "'n Math \<Rightarrow> 'n list \<Rightarrow> 'n Quaternion" where
  "Quaternion_fromArray M ns =
     Quaternion (array_get (undefined_num M) ns 0) (array_get (undefined_num M) ns 1)
                (array_get (undefined_num M) ns 2) (array_get (undefined_num M) ns 3)"

text \<open>
  \<^verbatim>\<open>_entitiesToIds(array)\<close>, lines 533-535: \<^verbatim>\<open>entity.uuid\<close> of each slot, left to right.
  On an entity this is the accessor (which may generate the identifier); on an identifier
  string the property does not exist and reads \<^verbatim>\<open>undefined\<close>; on \<^verbatim>\<open>undefined\<close> it throws.
\<close>

fun entitiesToIds ::
  "'n Math \<Rightarrow> link list \<Rightarrow> ('n, 'm) world \<Rightarrow> (error + link list) \<times> ('n, 'm) world" where
  "entitiesToIds M [] w = (Inr [], w)"
| "entitiesToIds M (Ent r # ls) w =
     (case get_uuid M r w of
        (u, w1) \<Rightarrow>
          (case entitiesToIds M ls w1 of
             (Inl err, w2) \<Rightarrow> (Inl err, w2)
           | (Inr us, w2) \<Rightarrow> (Inr (Uid u # us), w2)))"
| "entitiesToIds M (Uid s # ls) w =
     (case entitiesToIds M ls w of
        (Inl err, w2) \<Rightarrow> (Inl err, w2)
      | (Inr us, w2) \<Rightarrow> (Inr (Undefined # us), w2))"
| "entitiesToIds M (Undefined # ls) w = (Inl TypeError, w)"

text \<open>\<^verbatim>\<open>this.parent !== null ? this.parent.uuid : null\<close>.\<close>

definition parentToId ::
  "'n Math \<Rightarrow> link option \<Rightarrow> ('n, 'm) world \<Rightarrow> (error + link option) \<times> ('n, 'm) world" where
  "parentToId M l w =
     (case l of
        None \<Rightarrow> (Inr None, w)
      | Some (Ent q) \<Rightarrow> (case get_uuid M q w of (u, w1) \<Rightarrow> (Inr (Some (Uid u)), w1))
      | Some (Uid s) \<Rightarrow> (Inr (Some Undefined), w)
      | Some Undefined \<Rightarrow> (Inl TypeError, w))"

text \<open>
  \<^verbatim>\<open>toJSON()\<close>, lines 386-409. The properties of the object literal are evaluated in
  their order: the identifier first, the world matrix (through its accessor) before the
  local matrix.
\<close>

definition toJSON ::
  "'n Math \<Rightarrow> ('n, 'm) Babylon \<Rightarrow> ref \<Rightarrow> ('n, 'm) world \<Rightarrow> ((error + 'n json) \<times> ('n, 'm) world) option" where
  "toJSON M B this w =
     (case get_uuid M this w of (u, w1) \<Rightarrow>
      case entitiesToIds M (children (ents w1 this)) w1 of
        (Inl err, w2) \<Rightarrow> Some (Inl err, w2)
      | (Inr cs, w2) \<Rightarrow>
     (case parentToId M (parent (ents w2 this)) w2 of
        (Inl err, w3) \<Rightarrow> Some (Inl err, w3)
      | (Inr par, w3) \<Rightarrow>
     (case entitiesToIds M (neighbors (ents w3 this)) w3 of
        (Inl err, w4) \<Rightarrow> Some (Inl err, w4)
      | (Inr nbs, w4) \<Rightarrow>
     Option.bind (get_worldMatrix B this w4)
       (\<lambda>r. case r of
          (Inl err, w5) \<Rightarrow> Some (Inl err, w5)
        | (Inr wm, w5) \<Rightarrow>
            Some (Inr \<lparr> j_type = ''GameEntity'', j_uuid = u, j_name = name (ents w1 this),
                        j_active = active (ents w1 this), j_children = cs, j_parent = par,
                        j_neighbors = nbs,
                        j_neighborhoodRadius = neighborhoodRadius (ents w4 this),
                        j_updateNeighborhood = updateNeighborhood (ents w4 this),
                        j_position = Vector3_asArray (p_position (ents w4 this)),
                        j_rotation = Quaternion_asArray (p_rotation (ents w4 this)),
                        j_scale = Vector3_asArray (p_scale (ents w4 this)),
                        j_forward = Vector3_asArray (forward (ents w4 this)),
                        j_up = Vector3_asArray (up (ents w4 this)),
                        j_boundingRadius = boundingRadius (ents w4 this),
                        j_maxTurnRate = maxTurnRate (ents w4 this),
                        j_canActivateTrigger = canActivateTrigger (ents w4 this),
                        j_worldMatrix = Matrix_asArray B wm,
                        j_localMatrix = Matrix_asArray B (p_localMatrix (ents w5 this)),
                        j_started = p_started (ents w5 this) \<rparr>, w5)))))"

text \<open>\<^verbatim>\<open>fromJSON(json)\<close>, lines 416-448.\<close>

definition fromJSON ::
  "'n Math \<Rightarrow> ('n, 'm) Babylon \<Rightarrow> ref \<Rightarrow> 'n json \<Rightarrow> ('n, 'm) world \<Rightarrow> ('n, 'm) world" where
  "fromJSON M B this j w =
     upd this (\<lambda>e. e\<lparr>
       name := j_name j, active := j_active j,
       neighborhoodRadius := j_neighborhoodRadius j,
       updateNeighborhood := j_updateNeighborhood j,
       p_position := Vector3_fromArray M (j_position j),
       p_rotation := Quaternion_fromArray M (j_rotation j),
       p_scale := Vector3_fromArray M (j_scale j),
       forward := Vector3_fromArray M (j_forward j),
       up := Vector3_fromArray M (j_up j),
       boundingRadius := j_boundingRadius j, maxTurnRate := j_maxTurnRate j,
       canActivateTrigger := j_canActivateTrigger j,
       children := j_children j, neighbors := j_neighbors j, parent := j_parent j,
       p_localMatrix := Matrix_fromArray B (j_localMatrix j),
       p_worldMatrix := Matrix_fromArray B (j_worldMatrix j),
       p_started := j_started j, p_uuid := Some (j_uuid j),
       p_localMatrixDirty := True, p_worldMatrixDirty := True\<rparr>) w"

text \<open>
  \<^verbatim>\<open>resolveReferences(entities)\<close>, lines 455-464. The map is keyed by identifier strings,
  so \<^verbatim>\<open>entities.get\<close> of anything else, and of an unknown identifier, is \<^verbatim>\<open>undefined\<close>;
  \<^verbatim>\<open>|| null\<close> turns that into \<^verbatim>\<open>null\<close> for the parent only.
\<close>

definition entities_get :: "(string \<rightharpoonup> ref) \<Rightarrow> link \<Rightarrow> link" where
  "entities_get entities l =
     (case l of
        Uid s \<Rightarrow> (case entities s of Some r \<Rightarrow> Ent r | None \<Rightarrow> Undefined)
      | Ent r \<Rightarrow> Undefined
      | Undefined \<Rightarrow> Undefined)"

definition resolveReferences :: "(string \<rightharpoonup> ref) \<Rightarrow> ref \<Rightarrow> ('n, 'm) world \<Rightarrow> ('n, 'm) world" where
  "resolveReferences entities this w =
     (let w1 = upd this (\<lambda>e. e\<lparr>neighbors := map (entities_get entities) (neighbors e)\<rparr>) w;
          w2 = upd this (\<lambda>e. e\<lparr>children := map (entities_get entities) (children e)\<rparr>) w1;
          w3 = upd this (\<lambda>e. e\<lparr>parent :=
                 (case parent e of
                    None \<Rightarrow> None
                  | Some l \<Rightarrow> (case entities_get entities l of
                                 Ent r \<Rightarrow> Some (Ent r) | Uid s \<Rightarrow> None | Undefined \<Rightarrow> None))\<rparr>) w2
      in upd this (\<lambda>e. e\<lparr>p_worldMatrixDirty := True\<rparr>) w3)"

text \<open>The identifier behind a slot: an entity's stored identifier, or the slot itself.\<close>

definition link_id :: "('n, 'm) world \<Rightarrow> link \<Rightarrow> link" where
  "link_id w l =
     (case l of
        Ent r \<Rightarrow> (case p_uuid (ents w r) of Some u \<Rightarrow> Uid u | None \<Rightarrow> Undefined)
      | Uid s \<Rightarrow> Uid s
      | Undefined \<Rightarrow> Undefined)"

fun is_Ent :: "link \<Rightarrow> bool" where
  "is_Ent (Ent r) = True"
| "is_Ent (Uid s) = False"
| "is_Ent Undefined = False"

fun is_Uid :: "link \<Rightarrow> bool" where
  "is_Uid (Uid s) = True"
| "is_Uid (Ent r) = False"
| "is_Uid Undefined = False"

section \<open>Messaging and render synchronization\<close>

text \<open>
  \<^verbatim>\<open>sendMessage(receiver, message, delay = 0, data = null)\<close>, lines 373-380. A default
  applies when the argument is \<^verbatim>\<open>undefined\<close>: an omitted delay is \<open>None\<close>, omitted data
  is \<open>JSUndefined\<close>. The manager is not part of the repository; its \<^verbatim>\<open>sendMessage\<close> is
  recorded as an event with the arguments it received.
\<close>

definition sendMessage ::
  "'n Math \<Rightarrow> ref \<Rightarrow> ref \<Rightarrow> string \<Rightarrow> 'n option \<Rightarrow> jsvalue \<Rightarrow> ('n, 'm) world \<Rightarrow> ('n, 'm) world" where
  "sendMessage M this receiver message delay_arg data_arg w =
     (let delay = (case delay_arg of None \<Rightarrow> num M 0 | Some d \<Rightarrow> d);
          data = (if data_arg = JSUndefined then JSNull else data_arg)
      in case manager (ents w this) of
           Some m \<Rightarrow> w\<lparr>events := events w @ [ManagerSendMessage m this receiver message delay data]\<rparr>
         | None \<Rightarrow> w\<lparr>events := events w @
             [ConsoleError ''GameEntity: The game entity must be added to a manager to send a message.'']\<rparr>)"






text \<open>
  \<^verbatim>\<open>setRenderComponent\<close> of the superseded class in \<^verbatim>\<open>GameEntity_OLD_2.js\<close>, lines
  340-344: two assignments.
\<close>

definition setRenderComponent_OLD_2 :: "ref \<Rightarrow> jsvalue \<Rightarrow> jsvalue \<Rightarrow> ('n, 'm) world \<Rightarrow> ('n, 'm) world" where
  "setRenderComponent_OLD_2 this renderComponent callback w =
     (let w1 = upd this (\<lambda>e. e\<lparr>p_renderComponent := renderComponent\<rparr>) w
      in upd this (\<lambda>e. e\<lparr>p_renderComponentCallback := callback\<rparr>) w1)"

section \<open>An instance in exact arithmetic\<close>

text \<open>
  Concrete inputs need a concrete number type and concrete library operations. This
  instance computes over the reals, where every operation is exact: a matrix is its sixteen
  entries in the library's order (row vectors, translation in entries 12 to 14),
  \<^verbatim>\<open>ComposeToRef\<close> and \<^verbatim>\<open>multiplyToRef\<close> are the usual formulas, and a number is never
  NaN. The theorems of the later sections hold for every instance; this one only supplies
  the examples.
\<close>

datatype 'n Matrix = Matrix 'n 'n 'n 'n 'n 'n 'n 'n 'n 'n 'n 'n 'n 'n 'n 'n

definition real_toInt32 :: "real \<Rightarrow> int" where
  "real_toInt32 a =
     (let t = (if a < 0 then - \<lfloor>- a\<rfloor> else \<lfloor>a\<rfloor>) in (t + 2 ^ 31) mod 2 ^ 32 - 2 ^ 31)"

definition exact_Math :: "real Math" where
  "exact_Math =
     \<lparr> num = (\<lambda>a. a), undefined_num = 0, Math_PI = pi, Math_max = max, Math_min = min,
       Math_acos = arccos, Math_random = (\<lambda>k. real (k mod 16) / 16), isNaN = (\<lambda>a. False),
       times_num = (*), divide_num = (/), less_num = (<), toInt32 = real_toInt32 \<rparr>"

fun vec_within :: "real Vector3 \<Rightarrow> real Vector3 \<Rightarrow> real \<Rightarrow> bool" where
  "vec_within (Vector3 a b c) (Vector3 a' b' c') eps =
     (\<bar>a - a'\<bar> \<le> eps \<and> \<bar>b - b'\<bar> \<le> eps \<and> \<bar>c - c'\<bar> \<le> eps)"

fun quat_within :: "real Quaternion \<Rightarrow> real Quaternion \<Rightarrow> real \<Rightarrow> bool" where
  "quat_within (Quaternion a b c d) (Quaternion a' b' c' d') eps =
     (\<bar>a - a'\<bar> \<le> eps \<and> \<bar>b - b'\<bar> \<le> eps \<and> \<bar>c - c'\<bar> \<le> eps \<and> \<bar>d - d'\<bar> \<le> eps)"

definition compose :: "real Vector3 \<Rightarrow> real Quaternion \<Rightarrow> real Vector3 \<Rightarrow> real Matrix" where
  "compose sc q tr =
     (case sc of Vector3 sx sy sz \<Rightarrow> case q of Quaternion qx qy qz qw \<Rightarrow>
      case tr of Vector3 tx ty tz \<Rightarrow>
        Matrix ((1 - (qy * (qy + qy) + qz * (qz + qz))) * sx)
               ((qx * (qy + qy) + qw * (qz + qz)) * sx)
               ((qx * (qz + qz) - qw * (qy + qy)) * sx) 0
               ((qx * (qy + qy) - qw * (qz + qz)) * sy)
               ((1 - (qx * (qx + qx) + qz * (qz + qz))) * sy)
               ((qy * (qz + qz) + qw * (qx + qx)) * sy) 0
               ((qx * (qz + qz) + qw * (qy + qy)) * sz)
               ((qy * (qz + qz) - qw * (qx + qx)) * sz)
               ((1 - (qx * (qx + qx) + qy * (qy + qy))) * sz) 0
               tx ty tz 1)"

fun multiply :: "real Matrix \<Rightarrow> real Matrix \<Rightarrow> real Matrix" where
  "multiply (Matrix a0 a1 a2 a3 a4 a5 a6 a7 a8 a9 a10 a11 a12 a13 a14 a15)
            (Matrix b0 b1 b2 b3 b4 b5 b6 b7 b8 b9 b10 b11 b12 b13 b14 b15) =
     Matrix (a0 * b0 + a1 * b4 + a2 * b8 + a3 * b12) (a0 * b1 + a1 * b5 + a2 * b9 + a3 * b13)
            (a0 * b2 + a1 * b6 + a2 * b10 + a3 * b14) (a0 * b3 + a1 * b7 + a2 * b11 + a3 * b15)
            (a4 * b0 + a5 * b4 + a6 * b8 + a7 * b12) (a4 * b1 + a5 * b5 + a6 * b9 + a7 * b13)
            (a4 * b2 + a5 * b6 + a6 * b10 + a7 * b14) (a4 * b3 + a5 * b7 + a6 * b11 + a7 * b15)
            (a8 * b0 + a9 * b4 + a10 * b8 + a11 * b12) (a8 * b1 + a9 * b5 + a10 * b9 + a11 * b13)
            (a8 * b2 + a9 * b6 + a10 * b10 + a11 * b14) (a8 * b3 + a9 * b7 + a10 * b11 + a11 * b15)
            (a12 * b0 + a13 * b4 + a14 * b8 + a15 * b12) (a12 * b1 + a13 * b5 + a14 * b9 + a15 * b13)
            (a12 * b2 + a13 * b6 + a14 * b10 + a15 * b14) (a12 * b3 + a13 * b7 + a14 * b11 + a15 * b15)"

fun getTranslation :: "real Matrix \<Rightarrow> real Vector3" where
  "getTranslation (Matrix a0 a1 a2 a3 a4 a5 a6 a7 a8 a9 a10 a11 a12 a13 a14 a15) =
     Vector3 a12 a13 a14"

fun fromRotationMatrix :: "real Matrix \<Rightarrow> real Quaternion" where
  "fromRotationMatrix (Matrix m11 m21 m31 a3 m12 m22 m32 a7 m13 m23 m33 a11 a12 a13 a14 a15) =
     (let trace = m11 + m22 + m33 in
      if 0 < trace then
        (let s = 0.5 / sqrt (trace + 1)
         in Quaternion ((m32 - m23) * s) ((m13 - m31) * s) ((m21 - m12) * s) (0.25 / s))
      else if m22 < m11 \<and> m33 < m11 then
        (let s = 2 * sqrt (1 + m11 - m22 - m33)
         in Quaternion (0.25 * s) ((m12 + m21) / s) ((m13 + m31) / s) ((m32 - m23) / s))
      else if m33 < m22 then
        (let s = 2 * sqrt (1 + m22 - m11 - m33)
         in Quaternion ((m12 + m21) / s) (0.25 * s) ((m23 + m32) / s) ((m13 - m31) / s))
      else
        (let s = 2 * sqrt (1 + m33 - m11 - m22)
         in Quaternion ((m13 + m31) / s) ((m23 + m32) / s) (0.25 * s) ((m21 - m12) / s)))"

fun determinant3 :: "real Matrix \<Rightarrow> real" where
  "determinant3 (Matrix a0 a1 a2 a3 a4 a5 a6 a7 a8 a9 a10 a11 a12 a13 a14 a15) =
     a0 * (a5 * a10 - a6 * a9) - a1 * (a4 * a10 - a6 * a8) + a2 * (a4 * a9 - a5 * a8)"

fun decompose :: "real Matrix \<Rightarrow> real Vector3 \<times> real Quaternion \<times> real Vector3" where
  "decompose (Matrix a0 a1 a2 a3 a4 a5 a6 a7 a8 a9 a10 a11 a12 a13 a14 a15) =
     (let sx = sqrt (a0 * a0 + a1 * a1 + a2 * a2);
          sy0 = sqrt (a4 * a4 + a5 * a5 + a6 * a6);
          sz = sqrt (a8 * a8 + a9 * a9 + a10 * a10);
          sy = (if determinant3 (Matrix a0 a1 a2 a3 a4 a5 a6 a7 a8 a9 a10 a11 a12 a13 a14 a15) \<le> 0
                then - sy0 else sy0);
          rot = (if sx = 0 \<or> sy = 0 \<or> sz = 0 then Quaternion 0 0 0 1
                 else fromRotationMatrix
                        (Matrix (a0 / sx) (a1 / sx) (a2 / sx) 0 (a4 / sy) (a5 / sy) (a6 / sy) 0
                                (a8 / sz) (a9 / sz) (a10 / sz) 0 0 0 0 1))
      in (Vector3 sx sy sz, rot, Vector3 a12 a13 a14))"

fun matrix_asArray :: "'n Matrix \<Rightarrow> 'n list" where
  "matrix_asArray (Matrix a0 a1 a2 a3 a4 a5 a6 a7 a8 a9 a10 a11 a12 a13 a14 a15) =
     [a0, a1, a2, a3, a4, a5, a6, a7, a8, a9, a10, a11, a12, a13, a14, a15]"

definition matrix_fromArray :: "real list \<Rightarrow> real Matrix" where
  "matrix_fromArray ns =
     (let g = array_get 0 ns
      in Matrix (g 0) (g 1) (g 2) (g 3) (g 4) (g 5) (g 6) (g 7) (g 8) (g 9) (g 10) (g 11)
                (g 12) (g 13) (g 14) (g 15))"

fun vec_subtract :: "real Vector3 \<Rightarrow> real Vector3 \<Rightarrow> real Vector3" where
  "vec_subtract (Vector3 a b c) (Vector3 a' b' c') = Vector3 (a - a') (b - b') (c - c')"

fun vec_normalize :: "real Vector3 \<Rightarrow> real Vector3" where
  "vec_normalize (Vector3 a b c) =
     (let len = sqrt (a * a + b * b + c * c)
      in if len = 0 \<or> len = 1 then Vector3 a b c else Vector3 (a / len) (b / len) (c / len))"

fun quat_normalize :: "real Quaternion \<Rightarrow> real Quaternion" where
  "quat_normalize (Quaternion a b c d) =
     (let len = sqrt (a * a + b * b + c * c + d * d)
      in if len = 0 then Quaternion a b c d
         else Quaternion (a * (1 / len)) (b * (1 / len)) (c * (1 / len)) (d * (1 / len)))"

fun quat_dot :: "real Quaternion \<Rightarrow> real Quaternion \<Rightarrow> real" where
  "quat_dot (Quaternion a b c d) (Quaternion a' b' c' d') = a * a' + b * b' + c * c' + d * d'"

fun slerp :: "real Quaternion \<Rightarrow> real Quaternion \<Rightarrow> real \<Rightarrow> real Quaternion" where
  "slerp (Quaternion a b c d) (Quaternion a' b' c' d') amount =
     (let dot = a * a' + b * b' + c * c' + d * d';
          flag = (dot < 0);
          num4 = (if flag then - dot else dot);
          num3 = (if 0.999999 < num4 then 1 - amount
                  else sin ((1 - amount) * arccos num4) * (1 / sin (arccos num4)));
          num2 = (if 0.999999 < num4 then (if flag then - amount else amount)
                  else if flag then - sin (amount * arccos num4) * (1 / sin (arccos num4))
                  else sin (amount * arccos num4) * (1 / sin (arccos num4)))
      in Quaternion (num3 * a + num2 * a') (num3 * b + num2 * b')
                    (num3 * c + num2 * c') (num3 * d + num2 * d'))"

fun lookDirectionLH :: "real Vector3 \<Rightarrow> real Vector3 \<Rightarrow> real Quaternion" where
  "lookDirectionLH (Vector3 fx fy fz) (Vector3 ux uy uz) =
     (let bx = - fx; by = - fy; bz = - fz;
          lx = uy * bz - uz * by; ly = uz * bx - ux * bz; lz = ux * by - uy * bx
      in fromRotationMatrix (Matrix lx ly lz 0 ux uy uz 0 bx by bz 0 0 0 0 1))"

fun quat_invert :: "real Quaternion \<Rightarrow> real Quaternion" where
  "quat_invert (Quaternion a b c d) =
     (let n2 = a * a + b * b + c * c + d * d
      in if n2 = 0 then Quaternion (- a) (- b) (- c) d
         else Quaternion (- a / n2) (- b / n2) (- c / n2) (d / n2))"

fun quat_multiply :: "real Quaternion \<Rightarrow> real Quaternion \<Rightarrow> real Quaternion" where
  "quat_multiply (Quaternion a b c d) (Quaternion a' b' c' d') =
     Quaternion (a * d' + b * c' - c * b' + d * a') (- a * c' + b * d' + c * a' + d * b')
                (a * b' - b * a' + c * d' + d * c') (- a * a' - b * b' - c * c' + d * d')"

definition exact_Babylon :: "(real, real Matrix) Babylon" where
  "exact_Babylon =
     \<lparr> Vector3_equalsWithEpsilon = vec_within, Quaternion_equalsWithEpsilon = quat_within,
       Matrix_new = Matrix 0 0 0 0 0 0 0 0 0 0 0 0 0 0 0 0,
       Matrix_ComposeToRef = compose, Matrix_multiply = multiply,
       Matrix_decompose = decompose, Matrix_getTranslation = getTranslation,
       Matrix_asArray = matrix_asArray, Matrix_fromArray = matrix_fromArray,
       Vector3_subtract = vec_subtract, Vector3_normalize = vec_normalize,
       Quaternion_normalize = quat_normalize, Quaternion_Dot = quat_dot,
       Quaternion_Slerp = slerp, Quaternion_FromLookDirectionLH = lookDirectionLH,
       Quaternion_invert = quat_invert, Quaternion_multiply = quat_multiply \<rparr>"

text \<open>A store of fresh entities, as \<^verbatim>\<open>new GameEntity()\<close> gives them.\<close>

definition fresh_world :: "(real, real Matrix) world" where
  "fresh_world =
     \<lparr> ents = (\<lambda>r. new_GameEntity exact_Math exact_Babylon), events = [], random_calls = 0 \<rparr>"

section \<open>Vocabulary of the statements\<close>

text \<open>
  \<open>recached e e'\<close>: the entity \<open>e'\<close> is \<open>e\<close> except, possibly, for the two cached
  matrices and the three dirty flags. \<open>cache_frame B w w'\<close>: the store \<open>w'\<close> is \<open>w\<close>
  except for those five fields of its entities, and a local matrix that changed is the
  composition of the entity's scale, rotation and position.
\<close>

definition recached :: "('n, 'm) GameEntity \<Rightarrow> ('n, 'm) GameEntity \<Rightarrow> bool" where
  "recached e e' \<longleftrightarrow>
     (\<exists>lm wm wd ld td. e' = e\<lparr>p_localMatrix := lm, p_worldMatrix := wm, p_worldMatrixDirty := wd,
                                 p_localMatrixDirty := ld, p_transformDirty := td\<rparr>)"

definition cache_frame :: "('n, 'm) Babylon \<Rightarrow> ('n, 'm) world \<Rightarrow> ('n, 'm) world \<Rightarrow> bool" where
  "cache_frame B w w' \<longleftrightarrow>
     events w' = events w \<and> random_calls w' = random_calls w \<and>
     (\<forall>r. recached (ents w r) (ents w' r)
          \<and> (p_localMatrix (ents w' r) = p_localMatrix (ents w r)
               \<or> p_localMatrix (ents w' r) =
                   Matrix_ComposeToRef B (p_scale (ents w r)) (p_rotation (ents w r)) (p_position (ents w r))))"

text \<open>
  The store after a write that took effect: the written entity carries the new value and
  both dirty flags, each of its direct children carries the world-dirty flag, and nothing
  else differs from \<open>w\<close>.
\<close>

definition after_write ::
  "ref \<Rightarrow> (('n, 'm) GameEntity \<Rightarrow> ('n, 'm) GameEntity) \<Rightarrow> ('n, 'm) world \<Rightarrow> ('n, 'm) world" where
  "after_write this f w =
     w\<lparr>ents := (\<lambda>r.
        let e = (if r = this
                 then (f (ents w this))\<lparr>p_localMatrixDirty := True, p_worldMatrixDirty := True\<rparr>
                 else ents w r)
        in if Ent r \<in> set (children (ents w this)) then e\<lparr>p_worldMatrixDirty := True\<rparr> else e)\<rparr>"

text \<open>
  The digit that one call of the replacement function draws,
  \<^verbatim>\<open>(Math.random() * 16) | 0\<close>, and what \<^verbatim>\<open>Math.random\<close> promises about it: a number in
  [0, 1) times 16, truncated, is one of 0, ..., 15.
\<close>

definition random_digit :: "'n Math \<Rightarrow> nat \<Rightarrow> int" where
  "random_digit M k = toInt32 M (times_num M (Math_random M k) (num M 16))"

definition random_contract :: "'n Math \<Rightarrow> bool" where
  "random_contract M \<longleftrightarrow> (\<forall>k. 0 \<le> random_digit M k \<and> random_digit M k < 16)"

text \<open>
  \<open>ids_frame w w'\<close>: the store \<open>w'\<close> is \<open>w\<close> except that entities may have received an
  identifier; an identifier that was stored is still the same.
\<close>

definition ids_frame :: "('n, 'm) world \<Rightarrow> ('n, 'm) world \<Rightarrow> bool" where
  "ids_frame w w' \<longleftrightarrow>
     events w' = events w \<and>
     (\<forall>r. (\<exists>u. ents w' r = (ents w r)\<lparr>p_uuid := u\<rparr>) \<and>
          (\<forall>u. p_uuid (ents w r) = Some u \<longrightarrow> p_uuid (ents w' r) = Some u))"

text \<open>
  \<open>rooted n w r\<close>: following \<^verbatim>\<open>parent\<close> from \<open>r\<close> reaches an entity without parent in
  at most \<open>n\<close> steps, every parent on the way is an entity, and every entity on the way
  has only entities in its \<^verbatim>\<open>children\<close>. On such a chain the world-matrix update
  returns.
\<close>

fun rooted :: "nat \<Rightarrow> ('n, 'm) world \<Rightarrow> ref \<Rightarrow> bool" where
  "rooted 0 w r = (list_all is_Ent (children (ents w r)) \<and> parent (ents w r) = None)"
| "rooted (Suc n) w r =
     (list_all is_Ent (children (ents w r)) \<and>
      (case parent (ents w r) of
         None \<Rightarrow> True
       | Some (Ent p) \<Rightarrow> rooted n w p
       | Some (Uid s) \<Rightarrow> False
       | Some Undefined \<Rightarrow> False))"

text \<open>
  The invariant of the specification: a child's \<^verbatim>\<open>parent\<close> and the parent's
  \<^verbatim>\<open>children\<close> agree, and no sequence holds an entity twice.
\<close>

definition consistent :: "('n, 'm) world \<Rightarrow> bool" where
  "consistent w \<longleftrightarrow>
     (\<forall>r. distinct (children (ents w r)) \<and>
          (\<forall>l \<in> set (children (ents w r)). \<exists>c. l = Ent c \<and> parent (ents w c) = Some (Ent r))) \<and>
     (\<forall>c l. parent (ents w c) = Some l \<longrightarrow> (\<exists>q. l = Ent q \<and> Ent c \<in> set (children (ents w q))))"

section \<open>Example scenes\<close>

text \<open>
  Two fresh entities as \<^verbatim>\<open>scene.ts\<close> places them: the position of 0 is written in
  place to (1,0,3), that of 1 to (3,1,0), and 1 is added to 0. Then a render component and
  a callback are stored on 1, and the world matrix of 1 is brought up to date.
\<close>

definition placed_scene :: "(real, real Matrix) world" where
  "placed_scene = snd (add 0 1 (position_set 1 3 1 0 (position_set 0 1 0 3 fresh_world)))"





text \<open>Two fresh entities, 1 added to 0.\<close>

definition parent_child_scene :: "(real, real Matrix) world" where
  "parent_child_scene = snd (add 0 1 fresh_world)"

text \<open>
  Three fresh entities in a chain: 0 is the parent of 1, 1 is the parent of 2; the
  positions of 1 and 2 are assigned through the setter.
\<close>

definition three_level_scene :: "(real, real Matrix) world" where
  "three_level_scene =
     (let w1 = snd (add 0 1 fresh_world);
          w2 = snd (add 1 2 w1);
          w3 = snd (set_position exact_Math exact_Babylon 1 (Vector3 0 1 0) w2)
      in snd (set_position exact_Math exact_Babylon 2 (Vector3 0 0 1) w3))"

text \<open>The same scene after the world matrix of entity 2 has been read once.\<close>

definition settled_scene :: "(real, real Matrix) world" where
  "settled_scene =
     (case get_worldMatrix exact_Babylon 2 three_level_scene of
        Some (r, w) \<Rightarrow> w
      | None \<Rightarrow> three_level_scene)"

text \<open>Then the position of entity 0, the grandparent, is assigned through the setter.\<close>

definition moved_scene :: "(real, real Matrix) world" where
  "moved_scene = snd (set_position exact_Math exact_Babylon 0 (Vector3 5 0 0) settled_scene)"

text \<open>
  The placed scene with names and identifiers assigned as the tests do: 0 is
  \<^verbatim>\<open>parent-uuid\<close>, 1 is \<^verbatim>\<open>hero-uuid\<close> with the neighbor 4 (\<^verbatim>\<open>neighbor-uuid\<close>) and
  the child 3 (\<^verbatim>\<open>child-uuid\<close>). Then the object that \<^verbatim>\<open>toJSON\<close> of entity 1 returns,
  the store after that call, a map from the three identifiers to their entities, and the
  store after entity 2 has imported the object and resolved its references.
\<close>

definition family_scene :: "(real, real Matrix) world" where
  "family_scene =
     (let w1 = upd 0 (\<lambda>e. e\<lparr>name := ''base'', p_uuid := Some ''parent-uuid''\<rparr>) placed_scene;
          w2 = upd 1 (\<lambda>e. e\<lparr>name := ''hero'', p_uuid := Some ''hero-uuid'',
                               neighbors := [Ent 4]\<rparr>) w1;
          w3 = upd 3 (\<lambda>e. e\<lparr>p_uuid := Some ''child-uuid''\<rparr>) w2;
          w4 = upd 4 (\<lambda>e. e\<lparr>p_uuid := Some ''neighbor-uuid''\<rparr>) w3
      in snd (add 1 3 w4))"

definition family_json :: "real json" where
  "family_json =
     \<lparr> j_type = ''GameEntity'', j_uuid = ''hero-uuid'', j_name = ''hero'', j_active = True,
       j_children = [Uid ''child-uuid''], j_parent = Some (Uid ''parent-uuid''),
       j_neighbors = [Uid ''neighbor-uuid''], j_neighborhoodRadius = 1,
       j_updateNeighborhood = False, j_position = [3, 1, 0], j_rotation = [0, 0, 0, 1],
       j_scale = [1, 1, 1], j_forward = [0, 0, 1], j_up = [0, 1, 0], j_boundingRadius = 0,
       j_maxTurnRate = pi, j_canActivateTrigger = True,
       j_worldMatrix = [1, 0, 0, 0,  0, 1, 0, 0,  0, 0, 1, 0,  4, 1, 3, 1],
       j_localMatrix = [1, 0, 0, 0,  0, 1, 0, 0,  0, 0, 1, 0,  3, 1, 0, 1],
       j_started = False \<rparr>"

definition family_exported :: "(real, real Matrix) world" where
  "family_exported =
     (case toJSON exact_Math exact_Babylon 1 family_scene of
        Some (r, w) \<Rightarrow> w
      | None \<Rightarrow> family_scene)"

definition family_entities :: "string \<rightharpoonup> ref" where
  "family_entities = [''parent-uuid'' \<mapsto> 0, ''child-uuid'' \<mapsto> 3, ''neighbor-uuid'' \<mapsto> 4]"

definition family_resolved :: "(real, real Matrix) world" where
  "family_resolved =
     resolveReferences family_entities 2
       (fromJSON exact_Math exact_Babylon 2 family_json family_exported)"

section \<open>Basic lemmas\<close>

lemma ents_upd [simp]: "ents (upd r f w) = (ents w)(r := f (ents w r))"
  and events_upd [simp]: "events (upd r f w) = events w"
  and random_calls_upd [simp]: "random_calls (upd r f w) = random_calls w"
  by (simp_all add: upd_def)

lemma recached_refl: "recached e e"
proof -
  have "e = e\<lparr>p_localMatrix := p_localMatrix e, p_worldMatrix := p_worldMatrix e,
              p_worldMatrixDirty := p_worldMatrixDirty e,
              p_localMatrixDirty := p_localMatrixDirty e, p_transformDirty := p_transformDirty e\<rparr>"
    by simp
  then show ?thesis unfolding recached_def by blast
qed

lemma recached_trans: "recached e e1 \<Longrightarrow> recached e1 e2 \<Longrightarrow> recached e e2"
  unfolding recached_def
  apply (elim exE)
  apply simp
  apply blast
  done

lemma recached_fields:
  assumes "recached e e'"
  shows "p_position e' = p_position e" "p_rotation e' = p_rotation e" "p_scale e' = p_scale e"
    "parent e' = parent e" "children e' = children e" "p_uuid e' = p_uuid e"
    "p_renderComponent e' = p_renderComponent e"
    "p_renderComponentCallback e' = p_renderComponentCallback e" "name e' = name e"
    "p_debugId e' = p_debugId e" "neighbors e' = neighbors e" "manager e' = manager e"
    "maxTurnRate e' = maxTurnRate e" "up e' = up e"
  using assms unfolding recached_def by auto

lemma cache_frame_refl: "cache_frame B w w"
  by (simp add: cache_frame_def recached_refl)

lemma cache_frame_trans:
  assumes "cache_frame B w w1" and "cache_frame B w1 w2"
  shows "cache_frame B w w2"
proof -
  have "recached (ents w r) (ents w2 r)" for r
    using assms recached_trans unfolding cache_frame_def by blast
  moreover have "p_localMatrix (ents w2 r) = p_localMatrix (ents w r)
               \<or> p_localMatrix (ents w2 r) =
                   Matrix_ComposeToRef B (p_scale (ents w r)) (p_rotation (ents w r)) (p_position (ents w r))" for r
  proof -
    from assms(1) have a: "recached (ents w r) (ents w1 r)"
      and b: "p_localMatrix (ents w1 r) = p_localMatrix (ents w r)
               \<or> p_localMatrix (ents w1 r) =
                   Matrix_ComposeToRef B (p_scale (ents w r)) (p_rotation (ents w r)) (p_position (ents w r))"
      unfolding cache_frame_def by blast+
    from assms(2) have c: "p_localMatrix (ents w2 r) = p_localMatrix (ents w1 r)
               \<or> p_localMatrix (ents w2 r) =
                   Matrix_ComposeToRef B (p_scale (ents w1 r)) (p_rotation (ents w1 r)) (p_position (ents w1 r))"
      unfolding cache_frame_def by blast
    from recached_fields(1-3) [OF a] b c show ?thesis by auto
  qed
  ultimately show ?thesis using assms unfolding cache_frame_def by simp
qed


lemma cache_frame_upd:
  "recached (ents w r) (f (ents w r)) \<Longrightarrow>
   p_localMatrix (f (ents w r)) = p_localMatrix (ents w r)
     \<or> p_localMatrix (f (ents w r)) =
        Matrix_ComposeToRef B (p_scale (ents w r)) (p_rotation (ents w r)) (p_position (ents w r)) \<Longrightarrow>
   cache_frame B w (upd r f w)"
  by (simp add: cache_frame_def recached_refl)

lemma recached_intros:
  "recached e (e\<lparr>p_worldMatrixDirty := b\<rparr>)"
  "recached e (e\<lparr>p_localMatrixDirty := b\<rparr>)"
  "recached e (e\<lparr>p_transformDirty := b\<rparr>)"
  "recached e (e\<lparr>p_localMatrix := m\<rparr>)"
  "recached e (e\<lparr>p_worldMatrix := m\<rparr>)"
  unfolding recached_def
  subgoal by (rule exI [of _ "p_localMatrix e"], rule exI [of _ "p_worldMatrix e"], rule exI [of _ b],
      rule exI [of _ "p_localMatrixDirty e"], rule exI [of _ "p_transformDirty e"]) simp
  subgoal by (rule exI [of _ "p_localMatrix e"], rule exI [of _ "p_worldMatrix e"],
      rule exI [of _ "p_worldMatrixDirty e"], rule exI [of _ b], rule exI [of _ "p_transformDirty e"]) simp
  subgoal by (rule exI [of _ "p_localMatrix e"], rule exI [of _ "p_worldMatrix e"],
      rule exI [of _ "p_worldMatrixDirty e"], rule exI [of _ "p_localMatrixDirty e"], rule exI [of _ b]) simp
  subgoal by (rule exI [of _ m], rule exI [of _ "p_worldMatrix e"],
      rule exI [of _ "p_worldMatrixDirty e"], rule exI [of _ "p_localMatrixDirty e"],
      rule exI [of _ "p_transformDirty e"]) simp
  subgoal by (rule exI [of _ "p_localMatrix e"], rule exI [of _ m],
      rule exI [of _ "p_worldMatrixDirty e"], rule exI [of _ "p_localMatrixDirty e"],
      rule exI [of _ "p_transformDirty e"]) simp
  done

lemma markChildren_frame: "cache_frame B w (snd (markChildren cs w))"
proof (induction cs w rule: markChildren.induct)
  case (2 c cs w)
  have "cache_frame B w (upd c (\<lambda>e. e\<lparr>p_worldMatrixDirty := True\<rparr>) w)"
    by (rule cache_frame_upd) (simp_all add: recached_intros)
  with 2 show ?case by (auto intro: cache_frame_trans)
qed (simp_all add: cache_frame_refl)

lemma updateLocalMatrix_frame: "cache_frame B w (updateLocalMatrix B this w)"
proof (cases "p_localMatrixDirty (ents w this)")
  case False
  then show ?thesis by (simp add: updateLocalMatrix_def cache_frame_refl)
next
  case True
  have 1: "cache_frame B w (upd this (\<lambda>e. e\<lparr>p_localMatrix :=
             Matrix_ComposeToRef B (p_scale e) (p_rotation e) (p_position e)\<rparr>) w)" (is "cache_frame B w ?w1")
    by (rule cache_frame_upd) (simp_all add: recached_intros)
  have 2: "cache_frame B ?w1 (upd this (\<lambda>e. e\<lparr>p_localMatrixDirty := False\<rparr>) ?w1)" (is "cache_frame B _ ?w2")
    by (rule cache_frame_upd) (simp_all add: recached_intros)
  have 3: "cache_frame B ?w2 (upd this (\<lambda>e. e\<lparr>p_worldMatrixDirty := True\<rparr>) ?w2)"
    by (rule cache_frame_upd) (simp_all add: recached_intros)
  from True cache_frame_trans [OF cache_frame_trans [OF 1 2] 3] show ?thesis
    by (simp add: updateLocalMatrix_def Let_def)
qed

lemma finishWorldMatrix_frame: "cache_frame B w (snd (finishWorldMatrix this w))"
proof -
  have 1: "cache_frame B w (upd this (\<lambda>e. e\<lparr>p_worldMatrixDirty := False\<rparr>) w)" (is "cache_frame B w ?w1")
    by (rule cache_frame_upd) (simp_all add: recached_intros)
  have 2: "cache_frame B ?w1 (upd this (\<lambda>e. e\<lparr>p_transformDirty := True\<rparr>) ?w1)" (is "cache_frame B _ ?w2")
    by (rule cache_frame_upd) (simp_all add: recached_intros)
  from cache_frame_trans [OF cache_frame_trans [OF 1 2] markChildren_frame]
  show ?thesis by (simp add: finishWorldMatrix_def Let_def)
qed

lemma setWorldMatrix_frame: "cache_frame B w (upd this (\<lambda>e. e\<lparr>p_worldMatrix := g e\<rparr>) w)"
  by (rule cache_frame_upd) (simp_all add: recached_intros)

lemma updateWorldMatrix_frame:
  assumes "updateWorldMatrix B this w = Some y"
  shows "cache_frame B w (snd y)"
proof (rule updateWorldMatrix.raw_induct
    [where P = "\<lambda>B this w y. cache_frame B w (snd y)", OF _ assms], goal_cases)
  case (1 uwm B this w y)
  let ?w1 = "updateLocalMatrix B this w"
  let ?root = "finishWorldMatrix this (upd this (\<lambda>e. e\<lparr>p_worldMatrix := p_localMatrix e\<rparr>) ?w1)"
  have root: "cache_frame B w (snd ?root)"
    by (rule cache_frame_trans [OF updateLocalMatrix_frame
          cache_frame_trans [OF setWorldMatrix_frame finishWorldMatrix_frame]])
  show ?case
  proof (cases "p_worldMatrixDirty (ents w this)")
    case False
    with 1(2) have "y = (None, w)" by simp
    show ?thesis unfolding \<open>y = (None, w)\<close> snd_conv by (rule cache_frame_refl)
  next
    case True
    with 1(2) have body:
      "(case parent (ents ?w1 this) of
          None \<Rightarrow> Some ?root
        | Some Undefined \<Rightarrow> Some ?root
        | Some (Uid s) \<Rightarrow> (if s = [] then Some ?root else Some (Some TypeError, ?w1))
        | Some (Ent p) \<Rightarrow>
            Option.bind (uwm B p ?w1)
              (\<lambda>r. case r of
                      (Some err, w2) \<Rightarrow> Some (Some err, w2)
                    | (None, w2) \<Rightarrow>
                        Some (finishWorldMatrix this
                          (upd this (\<lambda>e. e\<lparr>p_worldMatrix :=
                             Matrix_multiply B (p_localMatrix e) (p_worldMatrix (ents w2 p))\<rparr>) w2)))) = Some y"
      by (simp add: Let_def)
    show ?thesis
    proof (cases "parent (ents ?w1 this)")
      case None
      with body have "y = ?root" by simp
      with root show ?thesis by simp
    next
      case (Some l)
      show ?thesis
      proof (cases l)
        case (Ent p)
        with Some body have b2: "Option.bind (uwm B p ?w1)
              (\<lambda>r. case r of
                      (Some err, w2) \<Rightarrow> Some (Some err, w2)
                    | (None, w2) \<Rightarrow>
                        Some (finishWorldMatrix this
                          (upd this (\<lambda>e. e\<lparr>p_worldMatrix :=
                             Matrix_multiply B (p_localMatrix e) (p_worldMatrix (ents w2 p))\<rparr>) w2))) = Some y"
          by simp
        then obtain r where r: "uwm B p ?w1 = Some r"
          and y: "(case r of
                    (Some err, w2) \<Rightarrow> Some (Some err, w2)
                  | (None, w2) \<Rightarrow>
                      Some (finishWorldMatrix this
                        (upd this (\<lambda>e. e\<lparr>p_worldMatrix :=
                           Matrix_multiply B (p_localMatrix e) (p_worldMatrix (ents w2 p))\<rparr>) w2))) = Some y"
          by (cases "uwm B p ?w1") simp_all
        from 1(1) [OF r] have f2: "cache_frame B ?w1 (snd r)" .
        have f: "cache_frame B w (snd r)"
          by (rule cache_frame_trans [OF updateLocalMatrix_frame f2])
        obtain res w2 where rr: "r = (res, w2)" by (cases r)
        show ?thesis
        proof (cases res)
          case None
          with y rr have yy: "y = finishWorldMatrix this
                        (upd this (\<lambda>e. e\<lparr>p_worldMatrix :=
                           Matrix_multiply B (p_localMatrix e) (p_worldMatrix (ents w2 p))\<rparr>) w2)"
            by simp
          from f rr have "cache_frame B w w2" by simp
          then show ?thesis unfolding yy
            by (rule cache_frame_trans [OF _
                  cache_frame_trans [OF setWorldMatrix_frame finishWorldMatrix_frame]])
        next
          case (Some err)
          with y rr have "y = (Some err, w2)" by simp
          with f rr show ?thesis by simp
        qed
      next
        case (Uid s)
        with Some body have "y = ?root \<or> y = (Some TypeError, ?w1)"
          by (simp split: if_splits)
        with root updateLocalMatrix_frame [of B w this] show ?thesis by auto
      next
        case Undefined
        with Some body have "y = ?root" by simp
        with root show ?thesis by simp
      qed
    qed
  qed
qed

lemma cache_frame_fields:
  assumes "cache_frame B w w'"
  shows "events w' = events w" "random_calls w' = random_calls w"
    "p_renderComponent (ents w' r) = p_renderComponent (ents w r)"
    "p_renderComponentCallback (ents w' r) = p_renderComponentCallback (ents w r)"
    "p_uuid (ents w' r) = p_uuid (ents w r)"
    "parent (ents w' r) = parent (ents w r)"
    "children (ents w' r) = children (ents w r)"
    "p_position (ents w' r) = p_position (ents w r)"
    "p_rotation (ents w' r) = p_rotation (ents w r)"
    "p_scale (ents w' r) = p_scale (ents w r)"
    "name (ents w' r) = name (ents w r)"
    "maxTurnRate (ents w' r) = maxTurnRate (ents w r)"
    "up (ents w' r) = up (ents w r)"
    "neighbors (ents w' r) = neighbors (ents w r)"
proof -
  from assms have r: "recached (ents w r) (ents w' r)" unfolding cache_frame_def by blast
  from assms show "events w' = events w" "random_calls w' = random_calls w"
    unfolding cache_frame_def by blast+
  from recached_fields [OF r]
  show "p_renderComponent (ents w' r) = p_renderComponent (ents w r)"
    "p_renderComponentCallback (ents w' r) = p_renderComponentCallback (ents w r)"
    "p_uuid (ents w' r) = p_uuid (ents w r)"
    "parent (ents w' r) = parent (ents w r)"
    "children (ents w' r) = children (ents w r)"
    "p_position (ents w' r) = p_position (ents w r)"
    "p_rotation (ents w' r) = p_rotation (ents w r)"
    "p_scale (ents w' r) = p_scale (ents w r)"
    "name (ents w' r) = name (ents w r)"
    "maxTurnRate (ents w' r) = maxTurnRate (ents w r)"
    "up (ents w' r) = up (ents w r)"
    "neighbors (ents w' r) = neighbors (ents w r)"
    by simp_all
qed

section \<open>Dirty flags\<close>

lemma markChildren_entities:
  "list_all is_Ent cs \<Longrightarrow>
   markChildren cs w =
     (None, w\<lparr>ents := (\<lambda>r. if Ent r \<in> set cs then (ents w r)\<lparr>p_worldMatrixDirty := True\<rparr>
                              else ents w r)\<rparr>)"
proof (induction cs w rule: markChildren.induct)
  case (1 w)
  then show ?case by simp
next
  case (2 c cs w)
  then have "list_all is_Ent cs" by simp
  from 2(1) [OF this] show ?case
    by (auto simp: upd_def fun_eq_iff intro!: arg_cong2 [where f = "\<lambda>a b. a\<lparr>ents := b\<rparr>"])
next
  case (3 s cs w)
  then show ?case by simp
next
  case (4 cs w)
  then show ?case by simp
qed

lemma markDirty_entities:
  assumes "list_all is_Ent (children (ents w this))"
  shows "markDirty this w = (None, after_write this (\<lambda>e. e) w)"
proof -
  let ?w2 = "upd this (\<lambda>e. e\<lparr>p_worldMatrixDirty := True\<rparr>)
               (upd this (\<lambda>e. e\<lparr>p_localMatrixDirty := True\<rparr>) w)"
  have ch: "children (ents ?w2 this) = children (ents w this)" by simp
  have "markDirty this w = markChildren (children (ents w this)) ?w2"
    by (simp add: markDirty_def Let_def)
  also have "\<dots> = (None, ?w2\<lparr>ents := (\<lambda>r. if Ent r \<in> set (children (ents w this))
                        then (ents ?w2 r)\<lparr>p_worldMatrixDirty := True\<rparr> else ents ?w2 r)\<rparr>)"
    by (rule markChildren_entities [OF assms])
  also have "\<dots> = (None, after_write this (\<lambda>e. e) w)"
    by (auto simp: after_write_def upd_def fun_eq_iff Let_def)
  finally show ?thesis .
qed

lemma write_then_markDirty:
  assumes "list_all is_Ent (children (ents w this))" and "\<And>e. children (f e) = children e"
  shows "markDirty this (upd this f w) = (None, after_write this f w)"
proof -
  have ch: "children (ents (upd this f w) this) = children (ents w this)"
    by (simp add: assms(2))
  with assms(1) have "list_all is_Ent (children (ents (upd this f w) this))" by simp
  from markDirty_entities [OF this] ch show ?thesis
    by (auto simp: after_write_def upd_def fun_eq_iff Let_def)
qed

lemma after_write_fields:
  "ents (after_write this f w) this =
     (f (ents w this))\<lparr>p_localMatrixDirty := True, p_worldMatrixDirty := True\<rparr>"
  "r \<noteq> this \<Longrightarrow> Ent r \<in> set (children (ents w this)) \<Longrightarrow>
     ents (after_write this f w) r = (ents w r)\<lparr>p_worldMatrixDirty := True\<rparr>"
  "r \<noteq> this \<Longrightarrow> Ent r \<notin> set (children (ents w this)) \<Longrightarrow>
     ents (after_write this f w) r = ents w r"
  "events (after_write this f w) = events w"
  "random_calls (after_write this f w) = random_calls w"
  by (simp_all add: after_write_def Let_def)

section \<open>The world-matrix update returns\<close>

lemma rooted_cong:
  assumes "\<And>r. parent (ents w' r) = parent (ents w r)"
    and "\<And>r. children (ents w' r) = children (ents w r)"
  shows "rooted n w' r = rooted n w r"
  by (induction n arbitrary: r) (simp_all add: assms split: option.splits link.splits)

lemma rooted_cache_frame: "cache_frame B w w' \<Longrightarrow> rooted n w' r = rooted n w r"
  by (rule rooted_cong) (simp_all add: cache_frame_fields)

lemma rooted_children: "rooted n w r \<Longrightarrow> list_all is_Ent (children (ents w r))"
  by (cases n) simp_all

lemma finishWorldMatrix_returns:
  "list_all is_Ent (children (ents w this)) \<Longrightarrow> fst (finishWorldMatrix this w) = None"
  by (simp add: finishWorldMatrix_def Let_def markChildren_entities)

lemma updateWorldMatrix_returns:
  "rooted n w this \<Longrightarrow> \<exists>w'. updateWorldMatrix B this w = Some (None, w')"
proof (induction n arbitrary: this w)
  case 0
  let ?w1 = "updateLocalMatrix B this w"
  let ?wr = "upd this (\<lambda>e. e\<lparr>p_worldMatrix := p_localMatrix e\<rparr>) ?w1"
  from 0 have ch: "list_all is_Ent (children (ents w this))" and par: "parent (ents w this) = None"
    by simp_all
  have fr: "cache_frame B w ?wr"
    by (rule cache_frame_trans [OF updateLocalMatrix_frame setWorldMatrix_frame])
  from ch cache_frame_fields(7) [OF fr, of this]
  have "fst (finishWorldMatrix this ?wr) = None"
    by (intro finishWorldMatrix_returns) simp
  then have f: "finishWorldMatrix this ?wr = (None, snd (finishWorldMatrix this ?wr))"
    by (simp add: prod_eq_iff)
  have fr1: "cache_frame B w ?w1" by (rule updateLocalMatrix_frame)
  have p1: "parent (ents ?w1 this) = None"
    using par cache_frame_fields(6) [OF fr1, of this] by simp
  show ?case
  proof (cases "p_worldMatrixDirty (ents w this)")
    case False
    then show ?thesis by (subst updateWorldMatrix.simps) simp
  next
    case True
    then have "updateWorldMatrix B this w = Some (finishWorldMatrix this ?wr)"
      by (subst updateWorldMatrix.simps) (simp add: Let_def p1)
    with f have "updateWorldMatrix B this w = Some (None, snd (finishWorldMatrix this ?wr))"
      by simp
    then show ?thesis by (rule exI)
  qed
next
  case (Suc n)
  let ?w1 = "updateLocalMatrix B this w"
  let ?wr = "upd this (\<lambda>e. e\<lparr>p_worldMatrix := p_localMatrix e\<rparr>) ?w1"
  from Suc.prems have ch: "list_all is_Ent (children (ents w this))" by simp
  have fr1: "cache_frame B w ?w1" by (rule updateLocalMatrix_frame)
  have p1: "parent (ents ?w1 this) = parent (ents w this)"
    using cache_frame_fields(6) [OF fr1] .
  show ?case
  proof (cases "p_worldMatrixDirty (ents w this)")
    case False
    then show ?thesis by (subst updateWorldMatrix.simps) simp
  next
    case True
    note dirty = this
    show ?thesis
    proof (cases "parent (ents w this)")
      case None
      have fr: "cache_frame B w ?wr"
        by (rule cache_frame_trans [OF updateLocalMatrix_frame setWorldMatrix_frame])
      from ch cache_frame_fields(7) [OF fr, of this]
      have "fst (finishWorldMatrix this ?wr) = None"
        by (intro finishWorldMatrix_returns) simp
      then have f: "finishWorldMatrix this ?wr = (None, snd (finishWorldMatrix this ?wr))"
        by (simp add: prod_eq_iff)
      from dirty None p1 have "updateWorldMatrix B this w = Some (finishWorldMatrix this ?wr)"
        by (subst updateWorldMatrix.simps) (simp add: Let_def)
      with f have "updateWorldMatrix B this w = Some (None, snd (finishWorldMatrix this ?wr))"
        by simp
      then show ?thesis by (rule exI)
    next
      case (Some l)
      with Suc.prems obtain p where l: "l = Ent p" and rp: "rooted n w p"
        by (cases l) simp_all
      from rp rooted_cache_frame [OF fr1] have "rooted n ?w1 p" by simp
      from Suc.IH [OF this] obtain w2 where u2: "updateWorldMatrix B p ?w1 = Some (None, w2)"
        by blast
      let ?wm = "upd this (\<lambda>e. e\<lparr>p_worldMatrix :=
                   Matrix_multiply B (p_localMatrix e) (p_worldMatrix (ents w2 p))\<rparr>) w2"
      from updateWorldMatrix_frame [OF u2] have fr2: "cache_frame B ?w1 w2" by simp
      have fr: "cache_frame B w ?wm"
        by (rule cache_frame_trans [OF fr1 cache_frame_trans [OF fr2 setWorldMatrix_frame]])
      from ch cache_frame_fields(7) [OF fr, of this]
      have "fst (finishWorldMatrix this ?wm) = None"
        by (intro finishWorldMatrix_returns) simp
      then have f: "finishWorldMatrix this ?wm = (None, snd (finishWorldMatrix this ?wm))"
        by (simp add: prod_eq_iff)
      from dirty Some l p1 u2 have "updateWorldMatrix B this w = Some (finishWorldMatrix this ?wm)"
        by (subst updateWorldMatrix.simps) (simp add: Let_def)
      with f have "updateWorldMatrix B this w = Some (None, snd (finishWorldMatrix this ?wm))"
        by simp
      then show ?thesis by (rule exI)
    qed
  qed
qed

section \<open>Stale reads\<close>

lemmas scene_eval = three_level_scene_def settled_scene_def moved_scene_def
  add_def remove_def upd_def fresh_world_def new_GameEntity_def exact_Math_def exact_Babylon_def
  set_position_def markDirty_def Let_def updateLocalMatrix_def finishWorldMatrix_def
  get_worldMatrix_def compose_def updateWorldMatrix.simps

text \<open>
  Claim C1, evaluated on the code. Entity 0 is the parent of 1 and 1 the parent of 2, with
  local positions (0,0,0), (0,1,0) and (0,0,1). A first read of the world matrix of 2 gives
  the translation (0,1,1). Then the position of 0 is assigned (5,0,0) through the setter.
  The next read of the world matrix of 2 returns the very same matrix and changes nothing,
  although the local matrix of 2 composed with what the accessor returns for its parent 1
  at that moment, translation (5,1,0), has the translation (5,1,1).
\<close>

theorem grandchild_reads_stale_worldMatrix:
  "map_option fst (get_worldMatrix exact_Babylon 2 three_level_scene)
     = Some (Inr (Matrix 1 0 0 0  0 1 0 0  0 0 1 0  0 1 1 1))
   \<and> p_position (ents moved_scene 0) = Vector3 5 0 0
   \<and> parent (ents moved_scene 2) = Some (Ent 1) \<and> parent (ents moved_scene 1) = Some (Ent 0)
   \<and> get_worldMatrix exact_Babylon 2 moved_scene
       = Some (Inr (Matrix 1 0 0 0  0 1 0 0  0 0 1 0  0 1 1 1), moved_scene)
   \<and> p_localMatrix (ents moved_scene 2) = Matrix 1 0 0 0  0 1 0 0  0 0 1 0  0 0 1 1
   \<and> map_option fst (get_worldMatrix exact_Babylon 1 moved_scene)
       = Some (Inr (Matrix 1 0 0 0  0 1 0 0  0 0 1 0  5 1 0 1))
   \<and> multiply (Matrix 1 0 0 0  0 1 0 0  0 0 1 0  0 0 1 1) (Matrix 1 0 0 0  0 1 0 0  0 0 1 0  5 1 0 1)
       = Matrix 1 0 0 0  0 1 0 0  0 0 1 0  5 1 1 1"
  by (simp add: scene_eval)

text \<open>
  Claim C2, evaluated on the code. In the settled scene every world matrix is clean, 2 is
  a child of 1 and 1 a child of 0. Assigning (5,0,0) to the position of entity 0 differs
  from (0,0,0) beyond the tolerance and returns normally; it raises the world-dirty flag
  of the child 1, and the flag of the grandchild 2, a descendant, stays down.
\<close>

theorem setter_skips_grandchild:
  "\<not> Vector3_equalsWithEpsilon exact_Babylon (p_position (ents settled_scene 0)) (Vector3 5 0 0)
        (num exact_Math 0.0001)
   \<and> parent (ents settled_scene 2) = Some (Ent 1) \<and> parent (ents settled_scene 1) = Some (Ent 0)
   \<and> \<not> p_worldMatrixDirty (ents settled_scene 2)
   \<and> fst (set_position exact_Math exact_Babylon 0 (Vector3 5 0 0) settled_scene) = None
   \<and> p_worldMatrixDirty (ents moved_scene 1)
   \<and> \<not> p_worldMatrixDirty (ents moved_scene 2)"
  by (simp add: scene_eval)

text \<open>
  The three setters in closed form, for an entity whose children slots hold entities:
  \<open>after_write\<close> when the value differs beyond the tolerance, the unchanged store
  otherwise.
\<close>

lemma setters_effect:
  "list_all is_Ent (children (ents w this)) \<Longrightarrow>
     set_position M B this v w =
       (if Vector3_equalsWithEpsilon B (p_position (ents w this)) v (num M 0.0001) then (None, w)
        else (None, after_write this (\<lambda>e. e\<lparr>p_position := v\<rparr>) w))
   \<and> set_rotation M B this q w =
       (if Quaternion_equalsWithEpsilon B (p_rotation (ents w this)) q (num M 0.0001) then (None, w)
        else (None, after_write this (\<lambda>e. e\<lparr>p_rotation := q\<rparr>) w))
   \<and> set_scale M B this v w =
       (if Vector3_equalsWithEpsilon B (p_scale (ents w this)) v (num M 0.0001) then (None, w)
        else (None, after_write this (\<lambda>e. e\<lparr>p_scale := v\<rparr>) w))"
  by (simp add: set_position_def set_rotation_def set_scale_def write_then_markDirty)


section \<open>Hierarchy lemmas\<close>

lemma indexOf_ge: "- 1 \<le> indexOf bs a"
  by (induction bs) (auto simp: Let_def)

lemma indexOf_absent: "indexOf bs a = - 1 \<longleftrightarrow> a \<notin> set bs"
proof (induction bs)
  case Nil
  then show ?case by simp
next
  case (Cons b bs)
  from indexOf_ge [of bs a] have "indexOf bs a + 1 \<noteq> - 1" by linarith
  with Cons show ?case by (auto simp: Let_def)
qed

lemma splice1_indexOf: "a \<in> set bs \<Longrightarrow> splice1 (indexOf bs a) bs = remove1 a bs"
proof (induction bs)
  case Nil
  then show ?case by simp
next
  case (Cons b bs)
  show ?case
  proof (cases "b = a")
    case True
    then show ?thesis by (simp add: splice1_def)
  next
    case False
    with Cons.prems have mem: "a \<in> set bs" by simp
    then have ne: "indexOf bs a \<noteq> - 1" by (simp add: indexOf_absent)
    with indexOf_ge [of bs a] have nn: "0 \<le> indexOf bs a" by linarith
    from nn have "nat (indexOf bs a + 1) = Suc (nat (indexOf bs a))" by simp
    with False ne Cons.IH [OF mem] show ?thesis
      by (simp add: splice1_def Let_def)
  qed
qed

lemma remove_absent: "Ent c \<notin> set (children (ents w q)) \<Longrightarrow> remove q c w = w"
  by (simp add: remove_def indexOf_absent)

text \<open>
  Claim C8. Removing an entity that is not in the receiver's children sequence changes
  nothing: the whole store (every entity's children, parent and flags), the event log and
  the random-number position are what they were, and no error is possible since
  \<open>remove\<close> has no failing branch.
\<close>

theorem remove_absent_noop:
  "Ent c \<notin> set (children (ents w p)) \<Longrightarrow> remove p c w = w"
  by (simp add: remove_def indexOf_absent)

theorem remove_absent_noop_witness:
  "Ent 2 \<notin> set (children (ents (snd (add 0 1 fresh_world)) 0))
   \<and> children (ents (snd (add 0 1 fresh_world)) 0) = [Ent 1]
   \<and> remove 0 2 (snd (add 0 1 fresh_world)) = snd (add 0 1 fresh_world)"
proof -
  have ch: "children (ents (snd (add 0 1 fresh_world)) 0) = [Ent 1]"
    by (simp add: add_def fresh_world_def new_GameEntity_def upd_def)
  then have absent: "Ent 2 \<notin> set (children (ents (snd (add 0 1 fresh_world)) 0))"
    by simp
  from ch absent remove_absent_noop [OF absent] show ?thesis by simp
qed

lemma remove_present:
  "Ent c \<in> set (children (ents w q)) \<Longrightarrow>
   remove q c w =
     upd c (\<lambda>e. e\<lparr>p_worldMatrixDirty := True\<rparr>)
       (upd c (\<lambda>e. e\<lparr>parent := None\<rparr>)
         (upd q (\<lambda>e. e\<lparr>children := remove1 (Ent c) (children e)\<rparr>) w))"
  by (simp add: remove_def Let_def indexOf_absent splice1_indexOf upd_def)

lemma children_remove:
  "children (ents (remove q c w) r) =
     (if r = q then remove1 (Ent c) (children (ents w q)) else children (ents w r))"
proof (cases "Ent c \<in> set (children (ents w q))")
  case True
  then show ?thesis by (simp add: remove_present)
next
  case False
  then show ?thesis by (simp add: remove_absent remove1_idem)
qed

lemma parent_remove:
  "parent (ents (remove q c w) r) =
     (if r = c \<and> Ent c \<in> set (children (ents w q)) then None else parent (ents w r))"
proof (cases "Ent c \<in> set (children (ents w q))")
  case True
  then show ?thesis by (simp add: remove_present)
next
  case False
  then show ?thesis by (simp add: remove_absent)
qed

lemma add_entity_parent:
  assumes "parent (ents w c) = Some (Ent q)"
  shows "fst (add p c w) = None"
    and "children (ents (snd (add p c w)) r) =
          (if r = p then children (ents (remove q c w) p) @ [Ent c]
           else children (ents (remove q c w) r))"
    and "parent (ents (snd (add p c w)) r) = (if r = c then Some (Ent p) else parent (ents (remove q c w) r))"
    and "p_worldMatrixDirty (ents (snd (add p c w)) c)"
  using assms by (simp_all add: add_def Let_def)

text \<open>
  Claim C4 as stated fails where it allows \<open>q = p\<close>: adding to entity 0 the child it
  already has leaves the child in the sequence of 0, which is the old parent \<open>q\<close>.
\<close>

theorem readded_child_stays_in_old_parent:
  "parent (ents parent_child_scene 1) = Some (Ent 0)
   \<and> fst (add 0 1 parent_child_scene) = None
   \<and> Ent 1 \<in> set (children (ents (snd (add 0 1 parent_child_scene)) 0))"
  by (simp add: parent_child_scene_def add_def remove_def upd_def fresh_world_def
        new_GameEntity_def Let_def splice1_def)

text \<open>
  Claim C4 as amended. In a store that satisfies the invariant, for entities \<open>p\<close> and \<open>c\<close>
  where the parent of \<open>c\<close> is \<open>q\<close> (possibly \<open>q = p\<close>), \<open>p.add(c)\<close> returns normally; it
  first removes \<open>c\<close> from the children of \<open>q\<close> and clears the parent of \<open>c\<close>, then
  appends \<open>c\<close> to the children of \<open>p\<close>, sets the parent of \<open>c\<close> to \<open>p\<close> and raises the
  world-dirty flag of \<open>c\<close>. Afterwards \<open>c\<close> is in the children of \<open>p\<close> and of no other
  entity, once, at the end; \<open>q\<close> no longer holds \<open>c\<close> unless \<open>q = p\<close>; and the invariant
  holds again.
\<close>

theorem add_moves_child:
  assumes "consistent w" and "parent (ents w c) = Some (Ent q)"
  shows "fst (add p c w) = None
     \<and> Ent c \<notin> set (children (ents (remove q c w) q)) \<and> parent (ents (remove q c w) c) = None
     \<and> children (ents (snd (add p c w)) p) = children (ents (remove q c w) p) @ [Ent c]
     \<and> parent (ents (snd (add p c w)) c) = Some (Ent p)
     \<and> p_worldMatrixDirty (ents (snd (add p c w)) c)
     \<and> (\<forall>r. Ent c \<in> set (children (ents (snd (add p c w)) r)) \<longleftrightarrow> r = p)
     \<and> distinct (children (ents (snd (add p c w)) p))
     \<and> (q \<noteq> p \<longrightarrow> Ent c \<notin> set (children (ents (snd (add p c w)) q)))
     \<and> consistent (snd (add p c w))"
proof -
  let ?w' = "snd (add p c w)"
  let ?ch = "\<lambda>r. children (ents w r)"
  from assms(1) have D: "\<And>r. distinct (?ch r)"
    and A: "\<And>r l. l \<in> set (?ch r) \<Longrightarrow> \<exists>x. l = Ent x \<and> parent (ents w x) = Some (Ent r)"
    and Bf: "\<And>x l. parent (ents w x) = Some l \<Longrightarrow> \<exists>y. l = Ent y \<and> Ent x \<in> set (?ch y)"
    unfolding consistent_def by blast+
  from Bf [OF assms(2)] have cq: "Ent c \<in> set (?ch q)" by simp
  have only_q: "r = q" if "Ent c \<in> set (?ch r)" for r
    using A [OF that] assms(2) by simp
  have set1: "set (children (ents (remove q c w) r)) = set (?ch r) - {Ent c}" for r
  proof (cases "r = q")
    case True
    then show ?thesis using D [of q] by (simp add: children_remove)
  next
    case False
    with only_q have "Ent c \<notin> set (?ch r)" by blast
    with False show ?thesis by (simp add: children_remove)
  qed
  have dist1: "distinct (children (ents (remove q c w) r))" for r
    using D by (simp add: children_remove)
  have ch': "children (ents ?w' r) =
      (if r = p then children (ents (remove q c w) p) @ [Ent c] else children (ents (remove q c w) r))" for r
    by (rule add_entity_parent(2) [OF assms(2)])
  have set': "set (children (ents ?w' r)) =
      (if r = p then insert (Ent c) (set (?ch p)) else set (?ch r) - {Ent c})" for r
    by (auto simp: ch' set1)
  have par': "parent (ents ?w' r) = (if r = c then Some (Ent p) else parent (ents w r))" for r
    using add_entity_parent(3) [OF assms(2), of p r] by (simp add: parent_remove)
  have dist': "distinct (children (ents ?w' r))" for r
    by (simp add: ch' dist1 set1)
  have mem: "Ent c \<in> set (children (ents ?w' r)) \<longleftrightarrow> r = p" for r
    by (simp add: set')
  have cons: "consistent ?w'"
    unfolding consistent_def
  proof (intro conjI allI ballI impI)
    fix r show "distinct (children (ents ?w' r))" by (rule dist')
  next
    fix r l assume l: "l \<in> set (children (ents ?w' r))"
    show "\<exists>x. l = Ent x \<and> parent (ents ?w' x) = Some (Ent r)"
    proof (cases "l = Ent c")
      case True
      with l mem have "r = p" by simp
      with True show ?thesis by (simp add: par')
    next
      case False
      with l have "l \<in> set (?ch r)" by (auto simp: set' split: if_splits)
      from A [OF this] obtain x where x: "l = Ent x" "parent (ents w x) = Some (Ent r)" by blast
      with False have "x \<noteq> c" by auto
      with x show ?thesis by (simp add: par')
    qed
  next
    fix x l assume pl: "parent (ents ?w' x) = Some l"
    show "\<exists>y. l = Ent y \<and> Ent x \<in> set (children (ents ?w' y))"
    proof (cases "x = c")
      case True
      with pl have "l = Ent p" by (simp add: par')
      with True mem show ?thesis by simp
    next
      case False
      with pl have "parent (ents w x) = Some l" by (simp add: par')
      from Bf [OF this] obtain y where y: "l = Ent y" "Ent x \<in> set (?ch y)" by blast
      with False have "Ent x \<in> set (children (ents ?w' y))" by (auto simp: set')
      with y show ?thesis by simp
    qed
  qed
  have rm: "Ent c \<notin> set (children (ents (remove q c w) q))" by (simp add: set1)
  have rp: "parent (ents (remove q c w) c) = None" using cq by (simp add: parent_remove)
  have chp: "children (ents ?w' p) = children (ents (remove q c w) p) @ [Ent c]"
    by (simp add: ch')
  have parc: "parent (ents ?w' c) = Some (Ent p)" by (simp add: par')
  have memall: "\<forall>r. Ent c \<in> set (children (ents ?w' r)) \<longleftrightarrow> r = p"
    using mem by blast
  have qp: "q \<noteq> p \<longrightarrow> Ent c \<notin> set (children (ents ?w' q))"
    using mem by blast
  note f = add_entity_parent(1,4) [OF assms(2), of p]
  show ?thesis
    by (intro conjI) (rule f rm rp chp parc memall dist' qp cons)+
qed


theorem add_moves_child_witness:
  "consistent parent_child_scene \<and> parent (ents parent_child_scene 1) = Some (Ent 0)
   \<and> children (ents (snd (add 2 1 parent_child_scene)) 2) = [Ent 1]
   \<and> children (ents (snd (add 2 1 parent_child_scene)) 0) = []
   \<and> consistent (snd (add 2 1 parent_child_scene))"
proof -
  have ents: "ents parent_child_scene =
      (\<lambda>r. if r = 1 then (new_GameEntity exact_Math exact_Babylon)\<lparr>parent := Some (Ent 0)\<rparr>
           else if r = 0 then (new_GameEntity exact_Math exact_Babylon)\<lparr>children := [Ent 1]\<rparr>
           else new_GameEntity exact_Math exact_Babylon)"
    by (auto simp: parent_child_scene_def add_def upd_def fresh_world_def new_GameEntity_def
          Let_def fun_eq_iff)
  have c: "consistent parent_child_scene"
    unfolding consistent_def ents by (auto simp: new_GameEntity_def)
  have p: "parent (ents parent_child_scene 1) = Some (Ent 0)"
    by (simp add: ents)
  have ch: "children (ents (snd (add 2 1 parent_child_scene)) 2) = [Ent 1]"
       "children (ents (snd (add 2 1 parent_child_scene)) 0) = []"
    by (simp_all add: add_def remove_def upd_def Let_def splice1_def ents new_GameEntity_def)
  from add_moves_child [OF c p, of 2] c p ch show ?thesis by simp
qed

lemma markChildren_keeps:
  "p_localMatrixDirty (ents (snd (markChildren cs w)) r) = p_localMatrixDirty (ents w r)"
  "p_worldMatrixDirty (ents w r) \<Longrightarrow> p_worldMatrixDirty (ents (snd (markChildren cs w)) r)"
  by (induction cs w rule: markChildren.induct) simp_all

lemma markDirty_raises:
  "p_localMatrixDirty (ents (snd (markDirty this w)) this)"
  "p_worldMatrixDirty (ents (snd (markDirty this w)) this)"
  by (simp_all add: markDirty_def Let_def markChildren_keeps)

text \<open>
  Claim C10. A write through the object that a getter returned (\<^verbatim>\<open>position.set\<close>,
  and likewise for the rotation and the scale) replaces the stored component values and
  nothing else: on every entity the local-dirty flag, the world-dirty flag and both cached
  matrices are what they were. The same value assigned through the setter raises both flags
  of the entity when it differs beyond the tolerance. So after such a write to an entity
  whose world matrix was clean, the accessor still returns the matrix computed from the
  old position.
\<close>

theorem getter_write_bypasses_change_detection:
  "position_set this a b c w = w\<lparr>ents := (ents w)(this := (ents w this)\<lparr>p_position := Vector3 a b c\<rparr>)\<rparr>
   \<and> rotation_set this a b c d w = w\<lparr>ents := (ents w)(this := (ents w this)\<lparr>p_rotation := Quaternion a b c d\<rparr>)\<rparr>
   \<and> scale_set this a b c w = w\<lparr>ents := (ents w)(this := (ents w this)\<lparr>p_scale := Vector3 a b c\<rparr>)\<rparr>
   \<and> (\<forall>r. p_localMatrixDirty (ents (position_set this a b c w) r) = p_localMatrixDirty (ents w r)
         \<and> p_worldMatrixDirty (ents (position_set this a b c w) r) = p_worldMatrixDirty (ents w r)
         \<and> p_localMatrix (ents (position_set this a b c w) r) = p_localMatrix (ents w r)
         \<and> p_worldMatrix (ents (position_set this a b c w) r) = p_worldMatrix (ents w r))
   \<and> (\<not> Vector3_equalsWithEpsilon B (p_position (ents w this)) (Vector3 a b c) (num M 0.0001) \<longrightarrow>
        p_localMatrixDirty (ents (snd (set_position M B this (Vector3 a b c) w)) this)
        \<and> p_worldMatrixDirty (ents (snd (set_position M B this (Vector3 a b c) w)) this))
   \<and> (\<not> p_worldMatrixDirty (ents w this) \<longrightarrow>
        get_worldMatrix B this (position_set this a b c w)
          = Some (Inr (p_worldMatrix (ents w this)), position_set this a b c w))"
  by (simp add: position_set_def rotation_set_def scale_set_def upd_def set_position_def
        markDirty_raises get_worldMatrix_def updateWorldMatrix.simps)

theorem getter_write_bypasses_change_detection_witness:
  "\<not> Vector3_equalsWithEpsilon exact_Babylon (p_position (ents settled_scene 0)) (Vector3 5 0 0)
       (num exact_Math 0.0001)
   \<and> \<not> p_worldMatrixDirty (ents settled_scene 0)
   \<and> p_position (ents (position_set 0 5 0 0 settled_scene) 0) = Vector3 5 0 0
   \<and> \<not> p_worldMatrixDirty (ents (position_set 0 5 0 0 settled_scene) 0)
   \<and> p_worldMatrixDirty (ents (snd (set_position exact_Math exact_Babylon 0 (Vector3 5 0 0) settled_scene)) 0)
   \<and> get_worldMatrix exact_Babylon 0 (position_set 0 5 0 0 settled_scene)
        = Some (Inr (Matrix 1 0 0 0  0 1 0 0  0 0 1 0  0 0 0 1), position_set 0 5 0 0 settled_scene)"
proof -
  have far: "\<not> Vector3_equalsWithEpsilon exact_Babylon (p_position (ents settled_scene 0))
               (Vector3 5 0 0) (num exact_Math 0.0001)"
    and clean: "\<not> p_worldMatrixDirty (ents settled_scene 0)"
    and wm: "p_worldMatrix (ents settled_scene 0) = Matrix 1 0 0 0  0 1 0 0  0 0 1 0  0 0 0 1"
    by (simp_all add: scene_eval)
  note t = getter_write_bypasses_change_detection
             [of 0 5 0 0 settled_scene 0 exact_Babylon exact_Math]
  from t far have s: "p_worldMatrixDirty
      (ents (snd (set_position exact_Math exact_Babylon 0 (Vector3 5 0 0) settled_scene)) 0)"
    by blast
  from t clean have g: "get_worldMatrix exact_Babylon 0 (position_set 0 5 0 0 settled_scene)
          = Some (Inr (p_worldMatrix (ents settled_scene 0)), position_set 0 5 0 0 settled_scene)"
    by blast
  from t clean have d: "\<not> p_worldMatrixDirty (ents (position_set 0 5 0 0 settled_scene) 0)"
    by blast
  have p: "p_position (ents (position_set 0 5 0 0 settled_scene) 0) = Vector3 5 0 0"
    by (simp add: position_set_def)
  from far clean p d s g show ?thesis unfolding wm by (intro conjI)
qed

text \<open>
  Claim C7. With a manager attached, \<^verbatim>\<open>sendMessage\<close> hands the manager's
  \<^verbatim>\<open>sendMessage\<close> the five arguments (this entity, receiver, message, delay, data) once,
  with 0 for an omitted delay and \<^verbatim>\<open>null\<close> for omitted data, and changes no entity.
  With no manager it writes one line to \<^verbatim>\<open>console.error\<close> and changes no entity. In
  both cases it returns: the method has no failing branch of its own.
\<close>

theorem sendMessage_delegates_or_reports:
  "(manager (ents w this) = Some m \<longrightarrow>
      sendMessage M this receiver message delay_arg data_arg w =
        w\<lparr>events := events w @
          [ManagerSendMessage m this receiver message
             (case delay_arg of None \<Rightarrow> num M 0 | Some d \<Rightarrow> d)
             (if data_arg = JSUndefined then JSNull else data_arg)]\<rparr>)
   \<and> (manager (ents w this) = None \<longrightarrow>
      sendMessage M this receiver message delay_arg data_arg w =
        w\<lparr>events := events w @
          [ConsoleError ''GameEntity: The game entity must be added to a manager to send a message.'']\<rparr>)"
  by (simp add: sendMessage_def Let_def)

theorem sendMessage_delegates_or_reports_witness:
  "manager (ents (upd 0 (\<lambda>e. e\<lparr>manager := Some 7\<rparr>) fresh_world) 0) = Some 7
   \<and> events (sendMessage exact_Math 0 1 ''test'' None JSUndefined
              (upd 0 (\<lambda>e. e\<lparr>manager := Some 7\<rparr>) fresh_world))
       = [ManagerSendMessage 7 0 1 ''test'' 0 JSNull]
   \<and> manager (ents fresh_world 0) = None
   \<and> sendMessage exact_Math 0 1 ''test'' (Some 100) (JSObject 3) fresh_world
       = fresh_world\<lparr>events :=
           [ConsoleError ''GameEntity: The game entity must be added to a manager to send a message.'']\<rparr>"
proof -
  let ?w = "upd 0 (\<lambda>e. e\<lparr>manager := Some 7\<rparr>) fresh_world"
  have m: "manager (ents ?w 0) = Some 7" by simp
  have n: "manager (ents fresh_world 0) = None"
    and ev: "events fresh_world = []" "events ?w = []"
    by (simp_all add: fresh_world_def new_GameEntity_def)
  from sendMessage_delegates_or_reports [of ?w 0 7 exact_Math 1 "''test''" None JSUndefined]
       sendMessage_delegates_or_reports [of fresh_world 0 7 exact_Math 1 "''test''" "Some 100" "JSObject 3"]
       m n ev
  show ?thesis by (simp add: exact_Math_def)
qed





lemma setRenderComponent_OLD_2_stores:
  "p_renderComponent (ents (setRenderComponent_OLD_2 this rc cb w) this) = rc"
  "p_renderComponentCallback (ents (setRenderComponent_OLD_2 this rc cb w) this) = cb"
  "events (setRenderComponent_OLD_2 this rc cb w) = events w"
  by (simp_all add: setRenderComponent_OLD_2_def Let_def)



section \<open>Identifiers\<close>

lemma hexDigit_hex: "hexDigit d \<in> set ''0123456789abcdef''"
proof -
  have "d mod 16 < length ''0123456789abcdef''" by simp
  then show ?thesis unfolding hexDigit_def by (rule nth_mem)
qed

lemma toString16_digit: "0 \<le> v \<Longrightarrow> v < 16 \<Longrightarrow> toString16 v = [hexDigit (nat v)]"
  by (simp add: toString16_def)

lemma variant_range: "(r AND 3) OR 8 \<in> {8, 9, 10, 11 :: int}"
proof -
  have "0 \<le> r AND 3" by simp
  moreover have "r AND 3 \<le> 3" by (rule AND_upper2) simp
  ultimately have "r AND 3 = 0 \<or> r AND 3 = 1 \<or> r AND 3 = 2 \<or> r AND 3 = 3" by arith
  then show ?thesis
    by (elim disjE) simp_all
qed

lemma variant_digit: "toString16 ((r AND 3) OR 8) = [c] \<Longrightarrow> c \<in> set ''89ab''"
  using variant_range [of r]
  by (auto simp: toString16_def hexDigit_def)

lemma variant_single: "\<exists>c. toString16 ((r AND 3) OR 8) = [c] \<and> c \<in> set ''89ab''"
  using variant_range [of r]
  by (auto simp: toString16_def hexDigit_def)

declare hexNat.simps [simp del]

lemma fst_replace_xy:
  "fst (replace_xy M (c # t) k) =
     (if c = CHR ''x'' then toString16 (random_digit M k) @ fst (replace_xy M t (Suc k))
      else if c = CHR ''y'' then
        toString16 ((random_digit M k AND 3) OR 8) @ fst (replace_xy M t (Suc k))
      else c # fst (replace_xy M t k))"
  by (simp add: Let_def random_digit_def split: prod.splits)

lemma replace_xy_matches:
  "random_contract M \<Longrightarrow> matches_template t (fst (replace_xy M t k))"
proof (induction t arbitrary: k)
  case Nil
  then show ?case by simp
next
  case (Cons c t)
  from Cons.prems have d: "0 \<le> random_digit M k" "random_digit M k < 16"
    unfolding random_contract_def by blast+
  note ih = Cons.IH [OF Cons.prems]
  show ?case
  proof (cases "c = CHR ''x''")
    case True
    have "matches_template (CHR ''x'' # t)
            (hexDigit (nat (random_digit M k)) # fst (replace_xy M t (Suc k)))"
      using hexDigit_hex [of "nat (random_digit M k)"] ih [of "Suc k"]
      by (simp only: matches_template.simps if_True simp_thms)
    with True toString16_digit [OF d] show ?thesis
      by (simp only: fst_replace_xy if_True append_Cons append_Nil simp_thms)
  next
    case False
    note nx = this
    show ?thesis
    proof (cases "c = CHR ''y''")
      case True
      from variant_single [of "random_digit M k"] obtain v where
        v: "toString16 ((random_digit M k AND 3) OR 8) = [v]" "v \<in> set ''89ab''" by blast
      have ny: "CHR ''y'' \<noteq> CHR ''x''" by simp
      have "matches_template (CHR ''y'' # t) (v # fst (replace_xy M t (Suc k)))"
        using v(2) ih [of "Suc k"] ny
        by (simp only: matches_template.simps if_True if_False simp_thms)
      with True v(1) ny show ?thesis
        by (simp only: fst_replace_xy if_True if_False append_Cons append_Nil simp_thms)
    next
      case False
      have "matches_template (c # t) (c # fst (replace_xy M t k))"
        using nx False ih [of k]
        by (simp only: matches_template.simps if_False simp_thms)
      with nx False show ?thesis
        by (simp only: fst_replace_xy if_False simp_thms)
    qed
  qed
qed

lemma get_uuid_unset:
  "p_uuid (ents w this) = None \<Longrightarrow>
   get_uuid M this w =
     (fst (generateUUID M (random_calls w)),
      (upd this (\<lambda>e. e\<lparr>p_uuid := Some (fst (generateUUID M (random_calls w)))\<rparr>) w)
        \<lparr>random_calls := snd (generateUUID M (random_calls w))\<rparr>)"
  by (simp add: get_uuid_def split: prod.splits)

lemma get_uuid_set: "p_uuid (ents w this) = Some u \<Longrightarrow> get_uuid M this w = (u, w)"
  by (simp add: get_uuid_def)

lemma get_uuid_stores:
  "p_uuid (ents (snd (get_uuid M this w)) this) = Some (fst (get_uuid M this w))"
  by (cases "p_uuid (ents w this)") (simp_all add: get_uuid_unset get_uuid_set)

lemma get_uuid_others:
  "r \<noteq> this \<Longrightarrow> p_uuid (ents (snd (get_uuid M this w)) r) = p_uuid (ents w r)"
  by (cases "p_uuid (ents w this)") (simp_all add: get_uuid_unset get_uuid_set)

lemma get_uuid_format:
  assumes "p_uuid (ents w this) = None" and "random_contract M"
  shows "uuid_format (fst (get_uuid M this w))"
proof -
  from assms(1) have "fst (get_uuid M this w) = fst (generateUUID M (random_calls w))"
    by (simp add: get_uuid_unset)
  with replace_xy_matches [OF assms(2)] show ?thesis
    by (simp only: uuid_format_def generateUUID_def)
qed

lemma get_uuid_again:
  "get_uuid M this (snd (get_uuid M this w)) = (fst (get_uuid M this w), snd (get_uuid M this w))"
  by (rule get_uuid_set) (rule get_uuid_stores)

lemma markChildren_uuid: "p_uuid (ents (snd (markChildren cs w)) r) = p_uuid (ents w r)"
  using cache_frame_fields(5) [OF markChildren_frame] .

lemma remove_uuid: "p_uuid (ents (remove q c w) r) = p_uuid (ents w r)"
  by (simp add: remove_def Let_def)

lemma markDirty_uuid: "p_uuid (ents (snd (markDirty this w)) r) = p_uuid (ents w r)"
  by (simp add: markDirty_def Let_def markChildren_uuid)

lemma uuid_untouched:
  "p_uuid (ents (remove q c w) r) = p_uuid (ents w r)"
  "p_uuid (ents (snd (add q c w)) r) = p_uuid (ents w r)"
  "p_uuid (ents (snd (set_position M B this v w)) r) = p_uuid (ents w r)"
  "p_uuid (ents (snd (set_rotation M B this q' w)) r) = p_uuid (ents w r)"
  "p_uuid (ents (snd (set_scale M B this v w)) r) = p_uuid (ents w r)"
  "p_uuid (ents (snd (rotateTowards M B this q' a t w)) r) = p_uuid (ents w r)"
  "p_uuid (ents (resolveReferences m this w) r) = p_uuid (ents w r)"
  "p_uuid (ents (sendMessage M this c s dl dt w) r) = p_uuid (ents w r)"
  "p_uuid (ents (position_set this a1 a2 a3 w) r) = p_uuid (ents w r)"
proof -
  show "p_uuid (ents (remove q c w) r) = p_uuid (ents w r)"
    by (rule remove_uuid)
  show "p_uuid (ents (snd (add q c w)) r) = p_uuid (ents w r)"
    by (simp add: add_def Let_def remove_uuid split: option.splits link.splits)
  show "p_uuid (ents (snd (set_position M B this v w)) r) = p_uuid (ents w r)"
    by (simp add: set_position_def markDirty_uuid)
  show "p_uuid (ents (snd (set_rotation M B this q' w)) r) = p_uuid (ents w r)"
    by (simp add: set_rotation_def markDirty_uuid)
  show "p_uuid (ents (snd (set_scale M B this v w)) r) = p_uuid (ents w r)"
    by (simp add: set_scale_def markDirty_uuid)
  show "p_uuid (ents (snd (rotateTowards M B this q' a t w)) r) = p_uuid (ents w r)"
    by (simp add: rotateTowards_def Let_def)
  show "p_uuid (ents (resolveReferences m this w) r) = p_uuid (ents w r)"
    by (simp add: resolveReferences_def Let_def)
  show "p_uuid (ents (sendMessage M this c s dl dt w) r) = p_uuid (ents w r)"
    by (simp add: sendMessage_def Let_def split: option.splits)
  show "p_uuid (ents (position_set this a1 a2 a3 w) r) = p_uuid (ents w r)"
    by (simp add: position_set_def)
qed


lemma exact_random_digit: "random_digit exact_Math k = int (k mod 16)"
proof -
  have a: "real (k mod 16) / 16 * 16 = real (k mod 16)" by simp
  have b: "int (k mod 16) < 16" by simp
  have c: "(int (k mod 16) + 2 ^ 31) mod 2 ^ 32 = int (k mod 16) + 2 ^ 31"
    using b by (intro mod_pos_pos_trivial) simp_all
  show ?thesis
    unfolding random_digit_def exact_Math_def
    by (simp add: real_toInt32_def Let_def c)
qed

lemma exact_random_contract: "random_contract exact_Math"
  by (simp add: random_contract_def exact_random_digit)


lemma exact_digit_string:
  "toString16 (random_digit exact_Math k) = [hexDigit (k mod 16)]"
  by (simp add: exact_random_digit toString16_digit)

lemma exact_variant_string:
  "k mod 16 = 15 \<Longrightarrow> toString16 ((random_digit exact_Math k AND 3) OR 8) = ''b''"
proof -
  assume "k mod 16 = 15"
  then have "random_digit exact_Math k = 15" by (simp add: exact_random_digit)
  moreover have "((15::int) AND 3) OR 8 = 11" by simp
  ultimately show ?thesis by (simp add: toString16_digit hexDigit_def)
qed

lemma exact_uuid:
  "fst (generateUUID exact_Math 0) = ''01234567-89ab-4cde-b012-3456789abcde''"
  by (simp add: generateUUID_def fst_replace_xy exact_digit_string exact_variant_string hexDigit_def
        del: hexNat.simps replace_xy.simps(2))

text \<open>
  Claim C9. A new entity has no identifier. Reading \<^verbatim>\<open>uuid\<close> while none is stored
  generates one in the format \<^verbatim>\<open>xxxxxxxx-xxxx-4xxx-yxxx-xxxxxxxxxxxx\<close> (lowercase
  hexadecimal, 4 in the version position, one of 8, 9, a, b for \<^verbatim>\<open>y\<close>), provided
  \<^verbatim>\<open>Math.random\<close> keeps its promise, and stores it; every later read returns the stored
  string and changes nothing. Reading one entity's identifier leaves the others' alone, and
  \<^verbatim>\<open>add\<close>, \<^verbatim>\<open>remove\<close>, the setters, \<^verbatim>\<open>_rotateTowards\<close>, \<^verbatim>\<open>resolveReferences\<close>,
  \<^verbatim>\<open>sendMessage\<close> and the world-matrix update never write the field; only
  \<^verbatim>\<open>fromJSON\<close> overrides it, with the identifier of the record.
\<close>

theorem uuid_lazy_and_stable:
  "p_uuid (new_GameEntity M B) = None
   \<and> (p_uuid (ents w this) = None \<and> random_contract M \<longrightarrow>
        uuid_format (fst (get_uuid M this w)))
   \<and> p_uuid (ents (snd (get_uuid M this w)) this) = Some (fst (get_uuid M this w))
   \<and> get_uuid M this (snd (get_uuid M this w))
       = (fst (get_uuid M this w), snd (get_uuid M this w))
   \<and> (p_uuid (ents w this) = Some u \<longrightarrow> get_uuid M this w = (u, w))
   \<and> (\<forall>r. r \<noteq> this \<longrightarrow> p_uuid (ents (snd (get_uuid M this w)) r) = p_uuid (ents w r))
   \<and> (\<forall>r q c v rot a t m s dl dt.
         p_uuid (ents (remove q c w) r) = p_uuid (ents w r)
       \<and> p_uuid (ents (snd (add q c w)) r) = p_uuid (ents w r)
       \<and> p_uuid (ents (snd (set_position M B this v w)) r) = p_uuid (ents w r)
       \<and> p_uuid (ents (snd (set_rotation M B this rot w)) r) = p_uuid (ents w r)
       \<and> p_uuid (ents (snd (set_scale M B this v w)) r) = p_uuid (ents w r)
       \<and> p_uuid (ents (snd (rotateTowards M B this rot a t w)) r) = p_uuid (ents w r)
       \<and> p_uuid (ents (resolveReferences m this w) r) = p_uuid (ents w r)
       \<and> p_uuid (ents (sendMessage M this c s dl dt w) r) = p_uuid (ents w r)
       \<and> (\<forall>y. updateWorldMatrix B this w = Some y \<longrightarrow>
             p_uuid (ents (snd y) r) = p_uuid (ents w r)))
   \<and> p_uuid (ents (fromJSON M B this j w) this) = Some (j_uuid j)"
proof -
  have 1: "p_uuid (new_GameEntity M B) = None" by (simp add: new_GameEntity_def)
  have 2: "p_uuid (ents w this) = None \<and> random_contract M \<longrightarrow>
        uuid_format (fst (get_uuid M this w))"
    using get_uuid_format by blast
  have 5: "p_uuid (ents w this) = Some u \<longrightarrow> get_uuid M this w = (u, w)"
    using get_uuid_set by blast
  have 6: "\<forall>r. r \<noteq> this \<longrightarrow> p_uuid (ents (snd (get_uuid M this w)) r) = p_uuid (ents w r)"
    using get_uuid_others by blast
  have u: "p_uuid (ents (snd y) r) = p_uuid (ents w r)"
    if "updateWorldMatrix B this w = Some y" for y r
    using cache_frame_fields(5) [OF updateWorldMatrix_frame [OF that]] .
  have 7: "\<forall>r q c v rot a t m s dl dt.
         p_uuid (ents (remove q c w) r) = p_uuid (ents w r)
       \<and> p_uuid (ents (snd (add q c w)) r) = p_uuid (ents w r)
       \<and> p_uuid (ents (snd (set_position M B this v w)) r) = p_uuid (ents w r)
       \<and> p_uuid (ents (snd (set_rotation M B this rot w)) r) = p_uuid (ents w r)
       \<and> p_uuid (ents (snd (set_scale M B this v w)) r) = p_uuid (ents w r)
       \<and> p_uuid (ents (snd (rotateTowards M B this rot a t w)) r) = p_uuid (ents w r)
       \<and> p_uuid (ents (resolveReferences m this w) r) = p_uuid (ents w r)
       \<and> p_uuid (ents (sendMessage M this c s dl dt w) r) = p_uuid (ents w r)
       \<and> (\<forall>y. updateWorldMatrix B this w = Some y \<longrightarrow>
             p_uuid (ents (snd y) r) = p_uuid (ents w r))"
    by (intro allI conjI impI) (rule uuid_untouched u | assumption)+
  have 8: "p_uuid (ents (fromJSON M B this j w) this) = Some (j_uuid j)"
    by (simp add: fromJSON_def)
  from 1 2 get_uuid_stores get_uuid_again 5 6 7 8 show ?thesis by (intro conjI)
qed

theorem uuid_lazy_and_stable_witness:
  "p_uuid (ents fresh_world 0) = None \<and> random_contract exact_Math
   \<and> fst (get_uuid exact_Math 0 fresh_world) = ''01234567-89ab-4cde-b012-3456789abcde''
   \<and> uuid_format ''01234567-89ab-4cde-b012-3456789abcde''
   \<and> p_uuid (ents (snd (get_uuid exact_Math 0 fresh_world)) 0)
       = Some ''01234567-89ab-4cde-b012-3456789abcde''
   \<and> fst (get_uuid exact_Math 0 (snd (get_uuid exact_Math 0 fresh_world)))
       = ''01234567-89ab-4cde-b012-3456789abcde''"
proof -
  have n: "p_uuid (ents fresh_world 0) = None"
    and k: "random_calls fresh_world = 0"
    by (simp_all add: fresh_world_def new_GameEntity_def)
  have g: "fst (get_uuid exact_Math 0 fresh_world) = ''01234567-89ab-4cde-b012-3456789abcde''"
    using n k exact_uuid by (simp add: get_uuid_unset)
  note t = uuid_lazy_and_stable [of exact_Math exact_Babylon fresh_world 0]
  from t n exact_random_contract have f: "uuid_format (fst (get_uuid exact_Math 0 fresh_world))"
    by blast
  from t have s: "p_uuid (ents (snd (get_uuid exact_Math 0 fresh_world)) 0)
       = Some (fst (get_uuid exact_Math 0 fresh_world))"
    by blast
  from t have a: "get_uuid exact_Math 0 (snd (get_uuid exact_Math 0 fresh_world))
       = (fst (get_uuid exact_Math 0 fresh_world), snd (get_uuid exact_Math 0 fresh_world))"
    by blast
  from n exact_random_contract g f s a show ?thesis by simp
qed

section \<open>Orientation steering: results\<close>











section \<open>Export, import and resolution\<close>

lemma fromArray_asArray:
  "Vector3_fromArray M (Vector3_asArray v) = v"
  "Quaternion_fromArray M (Quaternion_asArray q) = q"
  by (cases v, simp add: Vector3_fromArray_def array_get_def,
      cases q, simp add: Quaternion_fromArray_def array_get_def)

lemma ids_frame_refl: "ids_frame w w"
proof -
  have "\<exists>u. ents w r = (ents w r)\<lparr>p_uuid := u\<rparr>" for r
    by (rule exI [of _ "p_uuid (ents w r)"]) simp
  then show ?thesis by (simp add: ids_frame_def)
qed

lemma ids_frame_trans:
  assumes "ids_frame w w1" and "ids_frame w1 w2"
  shows "ids_frame w w2"
proof -
  have "\<exists>u. ents w2 r = (ents w r)\<lparr>p_uuid := u\<rparr>" for r
  proof -
    from assms(1) obtain u1 where 1: "ents w1 r = (ents w r)\<lparr>p_uuid := u1\<rparr>"
      unfolding ids_frame_def by blast
    from assms(2) obtain u2 where 2: "ents w2 r = (ents w1 r)\<lparr>p_uuid := u2\<rparr>"
      unfolding ids_frame_def by blast
    from 1 2 have "ents w2 r = (ents w r)\<lparr>p_uuid := u2\<rparr>" by simp
    then show ?thesis by blast
  qed
  moreover have "p_uuid (ents w2 r) = Some u" if "p_uuid (ents w r) = Some u" for r u
    using assms that unfolding ids_frame_def by blast
  ultimately show ?thesis using assms unfolding ids_frame_def by simp
qed

lemma ids_frame_fields:
  assumes "ids_frame w w'"
  shows "events w' = events w"
    "name (ents w' r) = name (ents w r)" "children (ents w' r) = children (ents w r)"
    "parent (ents w' r) = parent (ents w r)" "neighbors (ents w' r) = neighbors (ents w r)"
    "p_position (ents w' r) = p_position (ents w r)"
    "p_rotation (ents w' r) = p_rotation (ents w r)"
    "p_scale (ents w' r) = p_scale (ents w r)"
    "p_uuid (ents w r) = Some u \<Longrightarrow> p_uuid (ents w' r) = Some u"
proof -
  from assms obtain v where v: "ents w' r = (ents w r)\<lparr>p_uuid := v\<rparr>"
    unfolding ids_frame_def by blast
  from assms show "events w' = events w" unfolding ids_frame_def by blast
  from v show "name (ents w' r) = name (ents w r)" "children (ents w' r) = children (ents w r)"
    "parent (ents w' r) = parent (ents w r)" "neighbors (ents w' r) = neighbors (ents w r)"
    "p_position (ents w' r) = p_position (ents w r)"
    "p_rotation (ents w' r) = p_rotation (ents w r)"
    "p_scale (ents w' r) = p_scale (ents w r)"
    by simp_all
  show "p_uuid (ents w' r) = Some u" if "p_uuid (ents w r) = Some u"
    using assms that unfolding ids_frame_def by blast
qed

lemma get_uuid_ids_frame: "ids_frame w (snd (get_uuid M this w))"
proof (cases "p_uuid (ents w this)")
  case None
  have "\<exists>u. ents (snd (get_uuid M this w)) r = (ents w r)\<lparr>p_uuid := u\<rparr>" for r
  proof (cases "r = this")
    case True
    with None show ?thesis by (simp add: get_uuid_unset) blast
  next
    case False
    with None have "ents (snd (get_uuid M this w)) r = (ents w r)\<lparr>p_uuid := p_uuid (ents w r)\<rparr>"
      by (simp add: get_uuid_unset)
    then show ?thesis by (rule exI)
  qed
  moreover have "p_uuid (ents (snd (get_uuid M this w)) r) = Some u"
    if "p_uuid (ents w r) = Some u" for r u
    using that None by (cases "r = this") (simp_all add: get_uuid_unset)
  moreover have "events (snd (get_uuid M this w)) = events w"
    using None by (simp add: get_uuid_unset)
  ultimately show ?thesis unfolding ids_frame_def by blast
next
  case (Some u)
  then show ?thesis by (simp add: get_uuid_set ids_frame_refl)
qed

lemma link_id_stable:
  assumes "ids_frame w w'" and "link_id w l = Uid u"
  shows "link_id w' l = Uid u"
proof (cases l)
  case (Ent r)
  with assms(2) have "p_uuid (ents w r) = Some u"
    by (simp add: link_id_def split: option.splits)
  from ids_frame_fields(9) [OF assms(1) this] Ent show ?thesis by (simp add: link_id_def)
next
  case (Uid s)
  with assms(2) show ?thesis by (simp add: link_id_def)
next
  case Undefined
  with assms(2) show ?thesis by (simp add: link_id_def)
qed

lemma entitiesToIds_entities:
  "list_all is_Ent ls \<Longrightarrow>
   \<exists>ids w'. entitiesToIds M ls w = (Inr ids, w') \<and> ids_frame w w'
            \<and> ids = map (link_id w') ls \<and> list_all is_Uid ids"
proof (induction ls arbitrary: w)
  case Nil
  then show ?case by (simp add: ids_frame_refl)
next
  case (Cons l ls)
  then obtain r where l: "l = Ent r" by (cases l) simp_all
  let ?u = "fst (get_uuid M r w)" and ?w1 = "snd (get_uuid M r w)"
  from Cons.prems have "list_all is_Ent ls" by simp
  from Cons.IH [OF this, of ?w1] obtain ids w' where
    e: "entitiesToIds M ls ?w1 = (Inr ids, w')" and f: "ids_frame ?w1 w'"
    and i: "ids = map (link_id w') ls" and a: "list_all is_Uid ids"
    by blast
  have "link_id ?w1 (Ent r) = Uid ?u" by (simp add: link_id_def get_uuid_stores)
  from link_id_stable [OF f this] have h: "link_id w' (Ent r) = Uid ?u" .
  have "entitiesToIds M (l # ls) w = (Inr (Uid ?u # ids), w')"
    using e by (simp add: l case_prod_beta)
  moreover have "ids_frame w w'"
    by (rule ids_frame_trans [OF get_uuid_ids_frame f])
  ultimately show ?case using l i a h by simp
qed



lemma link_id_cache_frame: "cache_frame B w w' \<Longrightarrow> link_id w' l = link_id w l"
  by (simp add: link_id_def cache_frame_fields(5) split: link.splits)

lemma map_link_id_stable:
  assumes "ids_frame w w'" and "list_all is_Uid (map (link_id w) ls)"
  shows "map (link_id w') ls = map (link_id w) ls"
  using assms(2)
proof (induction ls)
  case Nil
  then show ?case by simp
next
  case (Cons l ls)
  then obtain u where "link_id w l = Uid u" by (cases "link_id w l") simp_all
  from link_id_stable [OF assms(1) this] this Cons show ?case by simp
qed

lemma rooted_ids_frame: "ids_frame w w' \<Longrightarrow> rooted n w' r = rooted n w r"
  by (rule rooted_cong) (simp_all add: ids_frame_fields)

lemma rooted_parent_cases:
  "rooted n w r \<Longrightarrow> parent (ents w r) = None \<or> (\<exists>q. parent (ents w r) = Some (Ent q))"
  by (cases n) (auto split: option.splits link.splits)

lemma parentToId_entity:
  assumes "l = None \<or> (\<exists>q. l = Some (Ent q))"
  shows "\<exists>par w'. parentToId M l w = (Inr par, w') \<and> ids_frame w w'
           \<and> par = map_option (link_id w') l \<and> (\<forall>i. par = Some i \<longrightarrow> is_Uid i)"
proof (cases l)
  case None
  then show ?thesis by (simp add: parentToId_def ids_frame_refl)
next
  case (Some a)
  with assms obtain q where l: "l = Some (Ent q)" by auto
  have "parentToId M l w = (Inr (Some (Uid (fst (get_uuid M q w)))), snd (get_uuid M q w))"
    by (simp add: l parentToId_def case_prod_beta)
  moreover have "link_id (snd (get_uuid M q w)) (Ent q) = Uid (fst (get_uuid M q w))"
    by (simp add: link_id_def get_uuid_stores)
  ultimately show ?thesis using get_uuid_ids_frame [of w M q] l by simp
qed

lemma markChildren_matrices:
  "p_localMatrix (ents (snd (markChildren cs w)) r) = p_localMatrix (ents w r)"
  "p_worldMatrix (ents (snd (markChildren cs w)) r) = p_worldMatrix (ents w r)"
  by (induction cs w rule: markChildren.induct) simp_all

lemma finishWorldMatrix_matrices:
  "p_localMatrix (ents (snd (finishWorldMatrix this w)) r) = p_localMatrix (ents w r)"
  "p_worldMatrix (ents (snd (finishWorldMatrix this w)) r) = p_worldMatrix (ents w r)"
  by (simp_all add: finishWorldMatrix_def Let_def markChildren_matrices)



lemma toJSON_exports:
  assumes ro: "rooted n w e" and nb: "list_all is_Ent (neighbors (ents w e))"
  obtains j wx where "toJSON M B e w = Some (Inr j, wx)"
    and "p_uuid (ents wx e) = Some (j_uuid j)"
    and "\<And>u. p_uuid (ents w e) = Some u \<Longrightarrow> j_uuid j = u"
    and "\<And>r. name (ents wx r) = name (ents w r)"
    and "\<And>r. children (ents wx r) = children (ents w r)"
    and "\<And>r. parent (ents wx r) = parent (ents w r)"
    and "\<And>r. neighbors (ents wx r) = neighbors (ents w r)"
    and "j_name j = name (ents w e)"
    and "j_position j = Vector3_asArray (p_position (ents w e))"
    and "j_rotation j = Quaternion_asArray (p_rotation (ents w e))"
    and "j_scale j = Vector3_asArray (p_scale (ents w e))"
    and "j_children j = map (link_id wx) (children (ents w e))"
    and "j_neighbors j = map (link_id wx) (neighbors (ents w e))"
    and "j_parent j = map_option (link_id wx) (parent (ents w e))"
    and "list_all is_Uid (j_children j)" and "list_all is_Uid (j_neighbors j)"
    and "\<And>i. j_parent j = Some i \<Longrightarrow> is_Uid i"
proof -
  obtain u w1 where g: "get_uuid M e w = (u, w1)" by (cases "get_uuid M e w")
  have f1: "ids_frame w w1" using get_uuid_ids_frame [of w M e] g by simp
  have u1: "p_uuid (ents w1 e) = Some u" using get_uuid_stores [of M e w] g by simp
  have u0: "v = u" if "p_uuid (ents w e) = Some v" for v
    using get_uuid_set [OF that, of M] g by simp
  note n1 = ids_frame_fields [OF f1]
  have ch1: "list_all is_Ent (children (ents w1 e))"
    using rooted_children [OF ro] n1(3) [of e] by simp
  from entitiesToIds_entities [OF ch1, of M w1] obtain cs w2 where
    c: "entitiesToIds M (children (ents w1 e)) w1 = (Inr cs, w2)" and f2: "ids_frame w1 w2"
    and cs: "cs = map (link_id w2) (children (ents w1 e))" and csu: "list_all is_Uid cs"
    by blast
  note n2 = ids_frame_fields [OF f2]
  have "parent (ents w2 e) = None \<or> (\<exists>q. parent (ents w2 e) = Some (Ent q))"
    using rooted_parent_cases [OF ro] n1(4) [of e] n2(4) [of e] by simp
  from parentToId_entity [OF this, of M w2] obtain par w3 where
    pr: "parentToId M (parent (ents w2 e)) w2 = (Inr par, w3)" and f3: "ids_frame w2 w3"
    and par: "par = map_option (link_id w3) (parent (ents w2 e))"
    and paru: "\<forall>i. par = Some i \<longrightarrow> is_Uid i"
    by blast
  note n3 = ids_frame_fields [OF f3]
  have nb3: "list_all is_Ent (neighbors (ents w3 e))"
    using nb n1(5) [of e] n2(5) [of e] n3(5) [of e] by simp
  from entitiesToIds_entities [OF nb3, of M w3] obtain nbs w4 where
    nn: "entitiesToIds M (neighbors (ents w3 e)) w3 = (Inr nbs, w4)" and f4: "ids_frame w3 w4"
    and nbs: "nbs = map (link_id w4) (neighbors (ents w3 e))" and nbsu: "list_all is_Uid nbs"
    by blast
  note n4 = ids_frame_fields [OF f4]
  have f14: "ids_frame w w4"
    by (rule ids_frame_trans [OF f1 ids_frame_trans [OF f2 ids_frame_trans [OF f3 f4]]])
  note n14 = ids_frame_fields [OF f14]
  from ro have "rooted n w4 e" by (simp add: rooted_ids_frame [OF f14])
  from updateWorldMatrix_returns [OF this] obtain w5 where
    uw: "updateWorldMatrix B e w4 = Some (None, w5)" by blast
  from updateWorldMatrix_frame [OF uw] have fr: "cache_frame B w4 w5" by simp
  note n5 = cache_frame_fields [OF fr]
  let ?j = "\<lparr> j_type = ''GameEntity'', j_uuid = u, j_name = name (ents w1 e),
                        j_active = active (ents w1 e), j_children = cs, j_parent = par,
                        j_neighbors = nbs,
                        j_neighborhoodRadius = neighborhoodRadius (ents w4 e),
                        j_updateNeighborhood = updateNeighborhood (ents w4 e),
                        j_position = Vector3_asArray (p_position (ents w4 e)),
                        j_rotation = Quaternion_asArray (p_rotation (ents w4 e)),
                        j_scale = Vector3_asArray (p_scale (ents w4 e)),
                        j_forward = Vector3_asArray (forward (ents w4 e)),
                        j_up = Vector3_asArray (up (ents w4 e)),
                        j_boundingRadius = boundingRadius (ents w4 e),
                        j_maxTurnRate = maxTurnRate (ents w4 e),
                        j_canActivateTrigger = canActivateTrigger (ents w4 e),
                        j_worldMatrix = Matrix_asArray B (p_worldMatrix (ents w5 e)),
                        j_localMatrix = Matrix_asArray B (p_localMatrix (ents w5 e)),
                        j_started = p_started (ents w5 e) \<rparr>"
  have t: "toJSON M B e w = Some (Inr ?j, w5)"
    by (simp add: toJSON_def g c pr nn get_worldMatrix_def uw)
  have 2: "p_uuid (ents w5 e) = Some (j_uuid ?j)"
    using n5(5) [of e] ids_frame_fields(9) [OF ids_frame_trans [OF f2 ids_frame_trans [OF f3 f4]] u1]
    by simp
  have l25: "map (link_id w5) ls = map (link_id w2) ls" if "list_all is_Uid (map (link_id w2) ls)" for ls
    using map_link_id_stable [OF ids_frame_trans [OF f3 f4] that] link_id_cache_frame [OF fr]
    by simp
  have l45: "map (link_id w5) ls = map (link_id w4) ls" for ls
    using link_id_cache_frame [OF fr] by simp
  have 12: "j_children ?j = map (link_id w5) (children (ents w e))"
    using l25 [of "children (ents w1 e)"] csu cs n1(3) [of e] by simp
  have 13: "j_neighbors ?j = map (link_id w5) (neighbors (ents w e))"
    using l45 [of "neighbors (ents w3 e)"] nbs n3(5) [of e] n2(5) [of e] n1(5) [of e] by simp
  have 14: "j_parent ?j = map_option (link_id w5) (parent (ents w e))"
  proof (cases "parent (ents w e)")
    case None
    with par n1(4) [of e] n2(4) [of e] show ?thesis by simp
  next
    case (Some l)
    with par n1(4) [of e] n2(4) [of e] have p3: "par = Some (link_id w3 l)" by simp
    with paru obtain v where v: "link_id w3 l = Uid v" by (cases "link_id w3 l") simp_all
    from link_id_stable [OF f4 v] link_id_cache_frame [OF fr, of l] p3 v Some
    show ?thesis by simp
  qed
  show ?thesis
  proof (rule that [of ?j w5])
    show "toJSON M B e w = Some (Inr ?j, w5)" by (rule t)
    show "p_uuid (ents w5 e) = Some (j_uuid ?j)" by (rule 2)
    show "j_uuid ?j = v" if "p_uuid (ents w e) = Some v" for v using u0 [OF that] by simp
    show "name (ents w5 r) = name (ents w r)" for r using n5(11) [of r] n14(2) [of r] by simp
    show "children (ents w5 r) = children (ents w r)" for r using n5(7) [of r] n14(3) [of r] by simp
    show "parent (ents w5 r) = parent (ents w r)" for r using n5(6) [of r] n14(4) [of r] by simp
    show "neighbors (ents w5 r) = neighbors (ents w r)" for r using n5(14) [of r] n14(5) [of r] by simp
    show "j_name ?j = name (ents w e)" using n1(2) [of e] by simp
    show "j_position ?j = Vector3_asArray (p_position (ents w e))" using n14(6) [of e] by simp
    show "j_rotation ?j = Quaternion_asArray (p_rotation (ents w e))" using n14(7) [of e] by simp
    show "j_scale ?j = Vector3_asArray (p_scale (ents w e))" using n14(8) [of e] by simp
    show "j_children ?j = map (link_id w5) (children (ents w e))" by (rule 12)
    show "j_neighbors ?j = map (link_id w5) (neighbors (ents w e))" by (rule 13)
    show "j_parent ?j = map_option (link_id w5) (parent (ents w e))" by (rule 14)
    show "list_all is_Uid (j_children ?j)" using csu by simp
    show "list_all is_Uid (j_neighbors ?j)" using nbsu by simp
    show "is_Uid i" if "j_parent ?j = Some i" for i using that paru by simp
  qed
qed

lemma updateWorldMatrix_recomputes:
  assumes u: "updateWorldMatrix B this w = Some (None, w')"
    and wd: "p_worldMatrixDirty (ents w this)" and ld: "p_localMatrixDirty (ents w this)"
  shows "p_localMatrix (ents w' this) =
           Matrix_ComposeToRef B (p_scale (ents w this)) (p_rotation (ents w this)) (p_position (ents w this))"
    and "parent (ents w this) = None \<Longrightarrow> p_worldMatrix (ents w' this) =
           Matrix_ComposeToRef B (p_scale (ents w this)) (p_rotation (ents w this)) (p_position (ents w this))"
    and "parent (ents w this) = Some (Ent p) \<Longrightarrow> p \<noteq> this \<Longrightarrow>
         p_worldMatrix (ents w' this) =
           Matrix_multiply B
             (Matrix_ComposeToRef B (p_scale (ents w this)) (p_rotation (ents w this)) (p_position (ents w this)))
             (p_worldMatrix (ents w' p))"
proof -
  let ?C = "Matrix_ComposeToRef B (p_scale (ents w this)) (p_rotation (ents w this)) (p_position (ents w this))"
  let ?w1 = "updateLocalMatrix B this w"
  have l1: "p_localMatrix (ents ?w1 this) = ?C" and par1: "parent (ents ?w1 this) = parent (ents w this)"
    and tr1: "p_scale (ents ?w1 this) = p_scale (ents w this)"
      "p_rotation (ents ?w1 this) = p_rotation (ents w this)"
      "p_position (ents ?w1 this) = p_position (ents w this)"
    using ld by (simp_all add: updateLocalMatrix_def Let_def)
  let ?root = "finishWorldMatrix this (upd this (\<lambda>e. e\<lparr>p_worldMatrix := p_localMatrix e\<rparr>) ?w1)"
  from u wd have body:
      "(case parent (ents ?w1 this) of
          None \<Rightarrow> Some ?root
        | Some Undefined \<Rightarrow> Some ?root
        | Some (Uid s) \<Rightarrow> (if s = [] then Some ?root else Some (Some TypeError, ?w1))
        | Some (Ent p) \<Rightarrow>
            Option.bind (updateWorldMatrix B p ?w1)
              (\<lambda>r. case r of
                      (Some err, w2) \<Rightarrow> Some (Some err, w2)
                    | (None, w2) \<Rightarrow>
                        Some (finishWorldMatrix this
                          (upd this (\<lambda>e. e\<lparr>p_worldMatrix :=
                             Matrix_multiply B (p_localMatrix e) (p_worldMatrix (ents w2 p))\<rparr>) w2))))
       = Some (None, w')"
    by (subst (asm) updateWorldMatrix.simps) (simp add: Let_def)
  have root: "p_localMatrix (ents (snd ?root) this) = ?C" "p_worldMatrix (ents (snd ?root) this) = ?C"
    using l1 by (simp_all add: finishWorldMatrix_matrices)
  have ent: "p_localMatrix (ents w' this) = ?C
             \<and> (p \<noteq> this \<longrightarrow>
                  p_worldMatrix (ents w' this) = Matrix_multiply B ?C (p_worldMatrix (ents w' p)))"
    if pp: "parent (ents w this) = Some (Ent p)" for p
  proof -
    from body pp par1 obtain r where r: "updateWorldMatrix B p ?w1 = Some r"
      and y: "(case r of
                      (Some err, w2) \<Rightarrow> Some (Some err, w2)
                    | (None, w2) \<Rightarrow>
                        Some (finishWorldMatrix this
                          (upd this (\<lambda>e. e\<lparr>p_worldMatrix :=
                             Matrix_multiply B (p_localMatrix e) (p_worldMatrix (ents w2 p))\<rparr>) w2)))
              = Some (None, w')"
      by (cases "updateWorldMatrix B p ?w1") simp_all
    obtain res w2 where rr: "r = (res, w2)" by (cases r)
    from y rr have res: "res = None" by (cases res) simp_all
    from y rr res have w': "(None, w') = finishWorldMatrix this
                          (upd this (\<lambda>e. e\<lparr>p_worldMatrix :=
                             Matrix_multiply B (p_localMatrix e) (p_worldMatrix (ents w2 p))\<rparr>) w2)"
      by simp
    from updateWorldMatrix_frame [OF r] rr have fr: "cache_frame B ?w1 w2" by simp
    then have "p_localMatrix (ents w2 this) = p_localMatrix (ents ?w1 this)
               \<or> p_localMatrix (ents w2 this) =
                   Matrix_ComposeToRef B (p_scale (ents ?w1 this)) (p_rotation (ents ?w1 this))
                     (p_position (ents ?w1 this))"
      unfolding cache_frame_def by blast
    with l1 tr1 have l2: "p_localMatrix (ents w2 this) = ?C" by auto
    from w' have w'': "w' = snd (finishWorldMatrix this
                          (upd this (\<lambda>e. e\<lparr>p_worldMatrix :=
                             Matrix_multiply B (p_localMatrix e) (p_worldMatrix (ents w2 p))\<rparr>) w2))"
      by (metis snd_conv)
    have "p_localMatrix (ents w' this) = ?C"
      unfolding w'' using l2 by (simp add: finishWorldMatrix_matrices)
    moreover have "p_worldMatrix (ents w' this) = Matrix_multiply B ?C (p_worldMatrix (ents w2 p))"
      unfolding w'' using l2 by (simp add: finishWorldMatrix_matrices)
    moreover have "p_worldMatrix (ents w' p) = p_worldMatrix (ents w2 p)" if "p \<noteq> this"
      unfolding w'' using that by (simp add: finishWorldMatrix_matrices)
    ultimately show ?thesis by simp
  qed
  have other: "p_localMatrix (ents w' this) = ?C \<and> p_worldMatrix (ents w' this) = ?C"
    if "\<And>p. parent (ents w this) \<noteq> Some (Ent p)"
  proof (cases "parent (ents w this)")
    case None
    with body par1 have "(None, w') = ?root" by simp
    then have "w' = snd ?root" by (metis snd_conv)
    with root show ?thesis by simp
  next
    case (Some l)
    with that have nl: "\<And>p. l \<noteq> Ent p" by auto
    show ?thesis
    proof (cases l)
      case (Ent p')
      with nl show ?thesis by blast
    next
      case (Uid s)
      with Some body par1 have "(None, w') = ?root" by (simp split: if_splits)
      then have "w' = snd ?root" by (metis snd_conv)
      with root show ?thesis by simp
    next
      case Undefined
      with Some body par1 have "(None, w') = ?root" by simp
      then have "w' = snd ?root" by (metis snd_conv)
      with root show ?thesis by simp
    qed
  qed
  show "p_localMatrix (ents w' this) = ?C"
  proof (cases "\<exists>p. parent (ents w this) = Some (Ent p)")
    case True
    then show ?thesis using ent by blast
  next
    case False
    then show ?thesis using other by blast
  qed
  show "p_worldMatrix (ents w' this) = ?C" if "parent (ents w this) = None"
    using that other by simp
  show "p_worldMatrix (ents w' this) = Matrix_multiply B ?C (p_worldMatrix (ents w' p))"
    if "parent (ents w this) = Some (Ent p)" and "p \<noteq> this"
    using ent [OF that(1)] that(2) by blast
qed


lemma rooted_not_self: "rooted n w r \<Longrightarrow> parent (ents w r) \<noteq> Some (Ent r)"
  by (induction n) auto

lemma first_read_recomputes:
  assumes ro: "rooted k w r"
    and wd: "p_worldMatrixDirty (ents w r)" and ld: "p_localMatrixDirty (ents w r)"
  shows "\<exists>wm w'. get_worldMatrix B r w = Some (Inr wm, w')
           \<and> p_localMatrix (ents w' r) =
               Matrix_ComposeToRef B (p_scale (ents w r)) (p_rotation (ents w r)) (p_position (ents w r))
           \<and> wm = (case parent (ents w r) of
                      Some (Ent p) \<Rightarrow>
                        Matrix_multiply B
                          (Matrix_ComposeToRef B (p_scale (ents w r)) (p_rotation (ents w r))
                             (p_position (ents w r)))
                          (p_worldMatrix (ents w' p))
                    | _ \<Rightarrow>
                        Matrix_ComposeToRef B (p_scale (ents w r)) (p_rotation (ents w r))
                          (p_position (ents w r)))"
proof -
  let ?C = "Matrix_ComposeToRef B (p_scale (ents w r)) (p_rotation (ents w r)) (p_position (ents w r))"
  from updateWorldMatrix_returns [OF ro] obtain w' where
    u: "updateWorldMatrix B r w = Some (None, w')" by blast
  note rc = updateWorldMatrix_recomputes [OF u wd ld]
  have g: "get_worldMatrix B r w = Some (Inr (p_worldMatrix (ents w' r)), w')"
    by (simp add: get_worldMatrix_def u)
  have m: "p_worldMatrix (ents w' r) =
             (case parent (ents w r) of
                Some (Ent p) \<Rightarrow> Matrix_multiply B ?C (p_worldMatrix (ents w' p))
              | _ \<Rightarrow> ?C)"
  proof (cases "parent (ents w r)")
    case None
    with rc(2) show ?thesis by simp
  next
    case (Some l)
    with rooted_parent_cases [OF ro] obtain q where q: "parent (ents w r) = Some (Ent q)" by auto
    with rooted_not_self [OF ro] have "q \<noteq> r" by auto
    from rc(3) [OF q this] q show ?thesis by simp
  qed
  from g rc(1) m show ?thesis by (intro exI [of _ "p_worldMatrix (ents w' r)"] exI [of _ w'] conjI)
qed

lemma resolved_ids:
  assumes "\<And>s. Uid s \<in> set ls \<Longrightarrow> \<exists>r. entities s = Some r \<and> p_uuid (ents w r) = Some s"
    and "list_all is_Uid ls"
  shows "map (link_id w) (map (entities_get entities) ls) = ls"
    and "list_all is_Ent (map (entities_get entities) ls)"
  using assms
proof (induction ls)
  case Nil
  { case 1 show ?case by simp }
  { case 2 show ?case by simp }
next
  case (Cons l ls)
  { case 1
    from 1(2) obtain s where l: "l = Uid s" by (cases l) simp_all
    from 1(1) [of s] l obtain r where r: "entities s = Some r" "p_uuid (ents w r) = Some s" by auto
    have "map (link_id w) (map (entities_get entities) ls) = ls"
      using 1 by (intro Cons.IH(1)) simp_all
    moreover have "link_id w (entities_get entities l) = l"
      using l r by (simp add: entities_get_def link_id_def)
    ultimately show ?case by simp }
  { case 2
    from 2(2) obtain s where l: "l = Uid s" by (cases l) simp_all
    from 2(1) [of s] l obtain r where r: "entities s = Some r" "p_uuid (ents w r) = Some s" by auto
    have "list_all is_Ent (map (entities_get entities) ls)"
      using 2 by (intro Cons.IH(2)) simp_all
    moreover have "is_Ent (entities_get entities l)"
      using l r by (simp add: entities_get_def)
    ultimately show ?case by simp }
qed


lemma import_resolve_fields:
  "name (ents (resolveReferences entities e' (fromJSON M B e' j wx)) e') = j_name j"
  "p_position (ents (resolveReferences entities e' (fromJSON M B e' j wx)) e')
     = Vector3_fromArray M (j_position j)"
  "p_rotation (ents (resolveReferences entities e' (fromJSON M B e' j wx)) e')
     = Quaternion_fromArray M (j_rotation j)"
  "p_scale (ents (resolveReferences entities e' (fromJSON M B e' j wx)) e')
     = Vector3_fromArray M (j_scale j)"
  "p_uuid (ents (resolveReferences entities e' (fromJSON M B e' j wx)) e') = Some (j_uuid j)"
  "children (ents (resolveReferences entities e' (fromJSON M B e' j wx)) e')
     = map (entities_get entities) (j_children j)"
  "neighbors (ents (resolveReferences entities e' (fromJSON M B e' j wx)) e')
     = map (entities_get entities) (j_neighbors j)"
  "parent (ents (resolveReferences entities e' (fromJSON M B e' j wx)) e')
     = (case j_parent j of
          None \<Rightarrow> None
        | Some l \<Rightarrow> (case entities_get entities l of
                       Ent r \<Rightarrow> Some (Ent r) | Uid s \<Rightarrow> None | Undefined \<Rightarrow> None))"
  "p_localMatrixDirty (ents (fromJSON M B e' j wx) e')"
  "p_worldMatrixDirty (ents (fromJSON M B e' j wx) e')"
  "p_localMatrixDirty (ents (resolveReferences entities e' (fromJSON M B e' j wx)) e')"
  "p_worldMatrixDirty (ents (resolveReferences entities e' (fromJSON M B e' j wx)) e')"
  "r \<noteq> e' \<Longrightarrow> p_uuid (ents (resolveReferences entities e' (fromJSON M B e' j wx)) r)
     = p_uuid (ents wx r)"
  by (simp_all add: resolveReferences_def fromJSON_def Let_def)

lemma import_resolve_roundtrip:
  assumes jn: "j_name j = name (ents w e)"
    and jp: "j_position j = Vector3_asArray (p_position (ents w e))"
    and jr: "j_rotation j = Quaternion_asArray (p_rotation (ents w e))"
    and js: "j_scale j = Vector3_asArray (p_scale (ents w e))"
    and ju: "p_uuid (ents wx e) = Some (j_uuid j)"
    and jc: "j_children j = map (link_id wx) (children (ents wx e))"
    and jb: "j_neighbors j = map (link_id wx) (neighbors (ents wx e))"
    and jq: "j_parent j = map_option (link_id wx) (parent (ents wx e))"
    and uc: "list_all is_Uid (j_children j)" and ub: "list_all is_Uid (j_neighbors j)"
    and uq: "\<And>i. j_parent j = Some i \<Longrightarrow> is_Uid i"
    and H: "\<And>s. Uid s \<in> set (j_children j) \<union> set (j_neighbors j) \<union> set_option (j_parent j)
                \<Longrightarrow> \<exists>r. entities s = Some r \<and> r \<noteq> e' \<and> p_uuid (ents wx r) = Some s"
  shows "name (ents (resolveReferences entities e' (fromJSON M B e' j wx)) e') = name (ents w e)"
    and "p_position (ents (resolveReferences entities e' (fromJSON M B e' j wx)) e')
           = p_position (ents w e)"
    and "p_rotation (ents (resolveReferences entities e' (fromJSON M B e' j wx)) e')
           = p_rotation (ents w e)"
    and "p_scale (ents (resolveReferences entities e' (fromJSON M B e' j wx)) e')
           = p_scale (ents w e)"
    and "p_uuid (ents (resolveReferences entities e' (fromJSON M B e' j wx)) e')
           = p_uuid (ents wx e)"
    and "map (link_id (resolveReferences entities e' (fromJSON M B e' j wx)))
           (children (ents (resolveReferences entities e' (fromJSON M B e' j wx)) e'))
         = map (link_id wx) (children (ents wx e))"
    and "map (link_id (resolveReferences entities e' (fromJSON M B e' j wx)))
           (neighbors (ents (resolveReferences entities e' (fromJSON M B e' j wx)) e'))
         = map (link_id wx) (neighbors (ents wx e))"
    and "map_option (link_id (resolveReferences entities e' (fromJSON M B e' j wx)))
           (parent (ents (resolveReferences entities e' (fromJSON M B e' j wx)) e'))
         = map_option (link_id wx) (parent (ents wx e))"
proof -
  let ?wi = "fromJSON M B e' j wx"
  let ?wr = "resolveReferences entities e' ?wi"
  note f = import_resolve_fields
  have H': "\<exists>r. entities s = Some r \<and> p_uuid (ents ?wr r) = Some s"
    if "Uid s \<in> set (j_children j) \<union> set (j_neighbors j) \<union> set_option (j_parent j)" for s
  proof -
    from H [OF that] obtain r where r: "entities s = Some r" "r \<noteq> e'" "p_uuid (ents wx r) = Some s"
      by blast
    from r(2,3) have "p_uuid (ents ?wr r) = Some s" by (simp add: f(13))
    with r(1) show ?thesis by blast
  qed
  show "name (ents ?wr e') = name (ents w e)" using jn by (simp add: f(1))
  show "p_position (ents ?wr e') = p_position (ents w e)"
    using jp by (simp add: f(2) fromArray_asArray)
  show "p_rotation (ents ?wr e') = p_rotation (ents w e)"
    using jr by (simp add: f(3) fromArray_asArray)
  show "p_scale (ents ?wr e') = p_scale (ents w e)"
    using js by (simp add: f(4) fromArray_asArray)
  show "p_uuid (ents ?wr e') = p_uuid (ents wx e)" using ju by (simp add: f(5))
  have "map (link_id ?wr) (map (entities_get entities) (j_children j)) = j_children j"
  proof (rule resolved_ids(1) [OF _ uc])
    fix s assume "Uid s \<in> set (j_children j)"
    then show "\<exists>r. entities s = Some r \<and> p_uuid (ents ?wr r) = Some s"
      by (intro H') simp
  qed
  then show "map (link_id ?wr) (children (ents ?wr e')) = map (link_id wx) (children (ents wx e))"
    using jc by (simp add: f(6))
  have "map (link_id ?wr) (map (entities_get entities) (j_neighbors j)) = j_neighbors j"
  proof (rule resolved_ids(1) [OF _ ub])
    fix s assume "Uid s \<in> set (j_neighbors j)"
    then show "\<exists>r. entities s = Some r \<and> p_uuid (ents ?wr r) = Some s"
      by (intro H') simp
  qed
  then show "map (link_id ?wr) (neighbors (ents ?wr e')) = map (link_id wx) (neighbors (ents wx e))"
    using jb by (simp add: f(7))
  have "map_option (link_id ?wr) (parent (ents ?wr e')) = j_parent j"
  proof (cases "j_parent j")
    case None
    then show ?thesis by (simp add: f(8))
  next
    case (Some i)
    from uq [OF Some] obtain s where i: "i = Uid s" by (cases i) simp_all
    from H' [of s] Some i obtain r where r: "entities s = Some r" "p_uuid (ents ?wr r) = Some s"
      by auto
    from Some i r(1) have "parent (ents ?wr e') = Some (Ent r)"
      by (simp add: f(8) entities_get_def)
    with r(2) Some i show ?thesis by (simp add: link_id_def)
  qed
  then show "map_option (link_id ?wr) (parent (ents ?wr e'))
                  = map_option (link_id wx) (parent (ents wx e))"
    using jq by simp
qed

lemma family_export_eval:
  "(case toJSON exact_Math exact_Babylon 1 family_scene of
      Some (r, w) \<Rightarrow> r = Inr family_json | None \<Rightarrow> False)"
  by (simp add: toJSON_def get_uuid_def parentToId_def family_scene_def family_json_def
        placed_scene_def position_set_def scene_eval)


lemma family_eval:
  "toJSON exact_Math exact_Babylon 1 family_scene = Some (Inr family_json, family_exported)"
  "rooted 1 family_scene 1"
  "list_all is_Ent (neighbors (ents family_scene 1))"
  using family_export_eval
  by (simp_all add: family_exported_def family_scene_def placed_scene_def position_set_def
        add_def remove_def upd_def fresh_world_def new_GameEntity_def Let_def
        split: option.splits prod.splits)

lemma family_scene_eval:
  "name (ents family_scene 1) = ''hero''"
  "p_position (ents family_scene 1) = Vector3 3 1 0"
  "p_rotation (ents family_scene 1) = Quaternion 0 0 0 1"
  "p_scale (ents family_scene 1) = Vector3 1 1 1"
  by (simp_all add: family_scene_def placed_scene_def position_set_def
        add_def remove_def upd_def fresh_world_def new_GameEntity_def Let_def exact_Math_def)

lemma family_exported_eval:
  "p_uuid (ents family_exported 0) = Some ''parent-uuid''"
  "p_uuid (ents family_exported 1) = Some ''hero-uuid''"
  "p_uuid (ents family_exported 3) = Some ''child-uuid''"
  "p_uuid (ents family_exported 4) = Some ''neighbor-uuid''"
  "children (ents family_exported 1) = [Ent 3]"
  "neighbors (ents family_exported 1) = [Ent 4]"
  "parent (ents family_exported 1) = Some (Ent 0)"
  by (simp_all add: family_exported_def toJSON_def get_uuid_def parentToId_def family_scene_def
        placed_scene_def position_set_def scene_eval)

lemma family_resolved_eval:
  "rooted 1 family_resolved 2"
  "map_option fst (get_worldMatrix exact_Babylon 2 family_resolved)
     = Some (Inr (Matrix 1 0 0 0  0 1 0 0  0 0 1 0  4 1 3 1))"
  by (simp_all add: family_resolved_def resolveReferences_def fromJSON_def family_entities_def
        family_json_def entities_get_def Vector3_fromArray_def Quaternion_fromArray_def
        array_get_def matrix_fromArray_def
        family_exported_def toJSON_def get_uuid_def parentToId_def family_scene_def
        placed_scene_def position_set_def scene_eval)

text \<open>
  Claim C5. Let \<open>e\<close> be an entity whose chain of parents ends at a root and whose
  children and neighbors are entities. Then \<^verbatim>\<open>toJSON\<close> returns an object \<open>j\<close>; after
  it, \<open>e\<close> and every entity it refers to has an identifier. Let a second entity \<open>e'\<close>
  import \<open>j\<close> with \<^verbatim>\<open>fromJSON\<close> and resolve it with \<^verbatim>\<open>resolveReferences\<close> over a
  map that sends every relationship identifier of \<open>j\<close> to an entity, other than \<open>e'\<close>,
  that carries this identifier. Then \<open>e'\<close> has the name, position, rotation and scale of
  \<open>e\<close> and the identifier of \<open>e\<close>; the identifiers of its children, of its neighbors
  and of its parent are those of \<open>e\<close>, in the same order; both dirty flags of \<open>e'\<close> are
  raised after the import and after the resolution; and if the chain of parents of \<open>e'\<close>
  ends at a root, the first read of its world matrix returns, the local matrix is then the
  composition of the restored scale, rotation and position, and the matrix read is that
  local matrix, multiplied by the parent's world matrix when there is a parent: nothing of
  the two matrices that \<open>j\<close> carried is left.
\<close>

theorem export_import_resolve_roundtrip:
  "rooted n w e \<and> list_all is_Ent (neighbors (ents w e)) \<longrightarrow>
   (\<exists>j wx. toJSON M B e w = Some (Inr j, wx)
      \<and> p_uuid (ents wx e) = Some (j_uuid j)
      \<and> list_all is_Uid (map (link_id wx) (children (ents wx e)))
      \<and> list_all is_Uid (map (link_id wx) (neighbors (ents wx e)))
      \<and> (\<forall>l. parent (ents wx e) = Some l \<longrightarrow> is_Uid (link_id wx l))
      \<and> (\<forall>entities e'.
           (\<forall>s. Uid s \<in> set (j_children j) \<union> set (j_neighbors j) \<union> set_option (j_parent j)
                \<longrightarrow> (\<exists>r. entities s = Some r \<and> r \<noteq> e' \<and> p_uuid (ents wx r) = Some s))
           \<longrightarrow> (let wi = fromJSON M B e' j wx; wr = resolveReferences entities e' wi in
                name (ents wr e') = name (ents w e)
              \<and> p_position (ents wr e') = p_position (ents w e)
              \<and> p_rotation (ents wr e') = p_rotation (ents w e)
              \<and> p_scale (ents wr e') = p_scale (ents w e)
              \<and> p_uuid (ents wr e') = p_uuid (ents wx e)
              \<and> map (link_id wr) (children (ents wr e')) = map (link_id wx) (children (ents wx e))
              \<and> map (link_id wr) (neighbors (ents wr e')) = map (link_id wx) (neighbors (ents wx e))
              \<and> map_option (link_id wr) (parent (ents wr e'))
                  = map_option (link_id wx) (parent (ents wx e))
              \<and> p_localMatrixDirty (ents wi e') \<and> p_worldMatrixDirty (ents wi e')
              \<and> p_localMatrixDirty (ents wr e') \<and> p_worldMatrixDirty (ents wr e')
              \<and> (\<forall>k. rooted k wr e' \<longrightarrow>
                    (\<exists>wm w'. get_worldMatrix B e' wr = Some (Inr wm, w')
                       \<and> p_localMatrix (ents w' e') =
                           Matrix_ComposeToRef B (p_scale (ents w e)) (p_rotation (ents w e))
                             (p_position (ents w e))
                       \<and> wm = (case parent (ents wr e') of
                                  Some (Ent p) \<Rightarrow>
                                    Matrix_multiply B
                                      (Matrix_ComposeToRef B (p_scale (ents w e))
                                         (p_rotation (ents w e)) (p_position (ents w e)))
                                      (p_worldMatrix (ents w' p))
                                | _ \<Rightarrow>
                                    Matrix_ComposeToRef B (p_scale (ents w e))
                                      (p_rotation (ents w e)) (p_position (ents w e))))))))"
proof
  assume "rooted n w e \<and> list_all is_Ent (neighbors (ents w e))"
  then have ro: "rooted n w e" and nb: "list_all is_Ent (neighbors (ents w e))" by simp_all
  show "\<exists>j wx. toJSON M B e w = Some (Inr j, wx)
      \<and> p_uuid (ents wx e) = Some (j_uuid j)
      \<and> list_all is_Uid (map (link_id wx) (children (ents wx e)))
      \<and> list_all is_Uid (map (link_id wx) (neighbors (ents wx e)))
      \<and> (\<forall>l. parent (ents wx e) = Some l \<longrightarrow> is_Uid (link_id wx l))
      \<and> (\<forall>entities e'.
           (\<forall>s. Uid s \<in> set (j_children j) \<union> set (j_neighbors j) \<union> set_option (j_parent j)
                \<longrightarrow> (\<exists>r. entities s = Some r \<and> r \<noteq> e' \<and> p_uuid (ents wx r) = Some s))
           \<longrightarrow> (let wi = fromJSON M B e' j wx; wr = resolveReferences entities e' wi in
                name (ents wr e') = name (ents w e)
              \<and> p_position (ents wr e') = p_position (ents w e)
              \<and> p_rotation (ents wr e') = p_rotation (ents w e)
              \<and> p_scale (ents wr e') = p_scale (ents w e)
              \<and> p_uuid (ents wr e') = p_uuid (ents wx e)
              \<and> map (link_id wr) (children (ents wr e')) = map (link_id wx) (children (ents wx e))
              \<and> map (link_id wr) (neighbors (ents wr e')) = map (link_id wx) (neighbors (ents wx e))
              \<and> map_option (link_id wr) (parent (ents wr e'))
                  = map_option (link_id wx) (parent (ents wx e))
              \<and> p_localMatrixDirty (ents wi e') \<and> p_worldMatrixDirty (ents wi e')
              \<and> p_localMatrixDirty (ents wr e') \<and> p_worldMatrixDirty (ents wr e')
              \<and> (\<forall>k. rooted k wr e' \<longrightarrow>
                    (\<exists>wm w'. get_worldMatrix B e' wr = Some (Inr wm, w')
                       \<and> p_localMatrix (ents w' e') =
                           Matrix_ComposeToRef B (p_scale (ents w e)) (p_rotation (ents w e))
                             (p_position (ents w e))
                       \<and> wm = (case parent (ents wr e') of
                                  Some (Ent p) \<Rightarrow>
                                    Matrix_multiply B
                                      (Matrix_ComposeToRef B (p_scale (ents w e))
                                         (p_rotation (ents w e)) (p_position (ents w e)))
                                      (p_worldMatrix (ents w' p))
                                | _ \<Rightarrow>
                                    Matrix_ComposeToRef B (p_scale (ents w e))
                                      (p_rotation (ents w e)) (p_position (ents w e)))))))"
  proof (rule toJSON_exports [OF ro nb, where M = M and B = B])
    fix j wx
    assume t: "toJSON M B e w = Some (Inr j, wx)"
      and ju: "p_uuid (ents wx e) = Some (j_uuid j)"
      and ch: "\<And>r. children (ents wx r) = children (ents w r)"
      and pa: "\<And>r. parent (ents wx r) = parent (ents w r)"
      and ne: "\<And>r. neighbors (ents wx r) = neighbors (ents w r)"
      and jn: "j_name j = name (ents w e)"
      and jp: "j_position j = Vector3_asArray (p_position (ents w e))"
      and jr: "j_rotation j = Quaternion_asArray (p_rotation (ents w e))"
      and js: "j_scale j = Vector3_asArray (p_scale (ents w e))"
      and jc: "j_children j = map (link_id wx) (children (ents w e))"
      and jb: "j_neighbors j = map (link_id wx) (neighbors (ents w e))"
      and jq: "j_parent j = map_option (link_id wx) (parent (ents w e))"
      and uc: "list_all is_Uid (j_children j)" and ub: "list_all is_Uid (j_neighbors j)"
      and uq: "\<And>i. j_parent j = Some i \<Longrightarrow> is_Uid i"
    have jc': "j_children j = map (link_id wx) (children (ents wx e))" using jc ch [of e] by simp
    have jb': "j_neighbors j = map (link_id wx) (neighbors (ents wx e))" using jb ne [of e] by simp
    have jq': "j_parent j = map_option (link_id wx) (parent (ents wx e))" using jq pa [of e] by simp
    have a: "list_all is_Uid (map (link_id wx) (children (ents wx e)))" using uc jc' by simp
    have b: "list_all is_Uid (map (link_id wx) (neighbors (ents wx e)))" using ub jb' by simp
    have c: "\<forall>l. parent (ents wx e) = Some l \<longrightarrow> is_Uid (link_id wx l)"
      using uq jq' by simp
    have main: "\<forall>entities e'.
           (\<forall>s. Uid s \<in> set (j_children j) \<union> set (j_neighbors j) \<union> set_option (j_parent j)
                \<longrightarrow> (\<exists>r. entities s = Some r \<and> r \<noteq> e' \<and> p_uuid (ents wx r) = Some s))
           \<longrightarrow> (let wi = fromJSON M B e' j wx; wr = resolveReferences entities e' wi in
                name (ents wr e') = name (ents w e)
              \<and> p_position (ents wr e') = p_position (ents w e)
              \<and> p_rotation (ents wr e') = p_rotation (ents w e)
              \<and> p_scale (ents wr e') = p_scale (ents w e)
              \<and> p_uuid (ents wr e') = p_uuid (ents wx e)
              \<and> map (link_id wr) (children (ents wr e')) = map (link_id wx) (children (ents wx e))
              \<and> map (link_id wr) (neighbors (ents wr e')) = map (link_id wx) (neighbors (ents wx e))
              \<and> map_option (link_id wr) (parent (ents wr e'))
                  = map_option (link_id wx) (parent (ents wx e))
              \<and> p_localMatrixDirty (ents wi e') \<and> p_worldMatrixDirty (ents wi e')
              \<and> p_localMatrixDirty (ents wr e') \<and> p_worldMatrixDirty (ents wr e')
              \<and> (\<forall>k. rooted k wr e' \<longrightarrow>
                    (\<exists>wm w'. get_worldMatrix B e' wr = Some (Inr wm, w')
                       \<and> p_localMatrix (ents w' e') =
                           Matrix_ComposeToRef B (p_scale (ents w e)) (p_rotation (ents w e))
                             (p_position (ents w e))
                       \<and> wm = (case parent (ents wr e') of
                                  Some (Ent p) \<Rightarrow>
                                    Matrix_multiply B
                                      (Matrix_ComposeToRef B (p_scale (ents w e))
                                         (p_rotation (ents w e)) (p_position (ents w e)))
                                      (p_worldMatrix (ents w' p))
                                | _ \<Rightarrow>
                                    Matrix_ComposeToRef B (p_scale (ents w e))
                                      (p_rotation (ents w e)) (p_position (ents w e))))))"
    proof (intro allI impI)
      fix entities e'
      assume H: "\<forall>s. Uid s \<in> set (j_children j) \<union> set (j_neighbors j) \<union> set_option (j_parent j)
                \<longrightarrow> (\<exists>r. entities s = Some r \<and> r \<noteq> e' \<and> p_uuid (ents wx r) = Some s)"
      let ?wi = "fromJSON M B e' j wx"
      let ?wr = "resolveReferences entities e' ?wi"
      let ?C = "Matrix_ComposeToRef B (p_scale (ents w e)) (p_rotation (ents w e)) (p_position (ents w e))"
      note r = import_resolve_roundtrip
                 [of j w e wx entities e' M B, OF jn jp jr js ju jc' jb' jq' uc ub uq H [rule_format]]
      have ld: "p_localMatrixDirty (ents ?wr e')" and wd: "p_worldMatrixDirty (ents ?wr e')"
        and ldi: "p_localMatrixDirty (ents ?wi e')" and wdi: "p_worldMatrixDirty (ents ?wi e')"
        by (simp_all add: import_resolve_fields(9-12))
      have rd: "\<forall>k. rooted k ?wr e' \<longrightarrow>
                    (\<exists>wm w'. get_worldMatrix B e' ?wr = Some (Inr wm, w')
                       \<and> p_localMatrix (ents w' e') = ?C
                       \<and> wm = (case parent (ents ?wr e') of
                                  Some (Ent p) \<Rightarrow> Matrix_multiply B ?C (p_worldMatrix (ents w' p))
                                | _ \<Rightarrow> ?C))"
      proof (intro allI impI)
        fix k assume "rooted k ?wr e'"
        from first_read_recomputes [OF this wd ld, of B]
        show "\<exists>wm w'. get_worldMatrix B e' ?wr = Some (Inr wm, w')
                       \<and> p_localMatrix (ents w' e') = ?C
                       \<and> wm = (case parent (ents ?wr e') of
                                  Some (Ent p) \<Rightarrow> Matrix_multiply B ?C (p_worldMatrix (ents w' p))
                                | _ \<Rightarrow> ?C)"
          by (simp only: r(2) r(3) r(4))
      qed
      from r(1) r(2) r(3) r(4) r(5) r(6) r(7) r(8) ldi wdi ld wd rd
      show "(let wi = fromJSON M B e' j wx; wr = resolveReferences entities e' wi in
                name (ents wr e') = name (ents w e)
              \<and> p_position (ents wr e') = p_position (ents w e)
              \<and> p_rotation (ents wr e') = p_rotation (ents w e)
              \<and> p_scale (ents wr e') = p_scale (ents w e)
              \<and> p_uuid (ents wr e') = p_uuid (ents wx e)
              \<and> map (link_id wr) (children (ents wr e')) = map (link_id wx) (children (ents wx e))
              \<and> map (link_id wr) (neighbors (ents wr e')) = map (link_id wx) (neighbors (ents wx e))
              \<and> map_option (link_id wr) (parent (ents wr e'))
                  = map_option (link_id wx) (parent (ents wx e))
              \<and> p_localMatrixDirty (ents wi e') \<and> p_worldMatrixDirty (ents wi e')
              \<and> p_localMatrixDirty (ents wr e') \<and> p_worldMatrixDirty (ents wr e')
              \<and> (\<forall>k. rooted k wr e' \<longrightarrow>
                    (\<exists>wm w'. get_worldMatrix B e' wr = Some (Inr wm, w')
                       \<and> p_localMatrix (ents w' e') =
                           Matrix_ComposeToRef B (p_scale (ents w e)) (p_rotation (ents w e))
                             (p_position (ents w e))
                       \<and> wm = (case parent (ents wr e') of
                                  Some (Ent p) \<Rightarrow>
                                    Matrix_multiply B
                                      (Matrix_ComposeToRef B (p_scale (ents w e))
                                         (p_rotation (ents w e)) (p_position (ents w e)))
                                      (p_worldMatrix (ents w' p))
                                | _ \<Rightarrow>
                                    Matrix_ComposeToRef B (p_scale (ents w e))
                                      (p_rotation (ents w e)) (p_position (ents w e))))))"
        unfolding Let_def by (intro conjI)
    qed
    from t ju a b c main
    show "\<exists>j wx. toJSON M B e w = Some (Inr j, wx)
      \<and> p_uuid (ents wx e) = Some (j_uuid j)
      \<and> list_all is_Uid (map (link_id wx) (children (ents wx e)))
      \<and> list_all is_Uid (map (link_id wx) (neighbors (ents wx e)))
      \<and> (\<forall>l. parent (ents wx e) = Some l \<longrightarrow> is_Uid (link_id wx l))
      \<and> (\<forall>entities e'.
           (\<forall>s. Uid s \<in> set (j_children j) \<union> set (j_neighbors j) \<union> set_option (j_parent j)
                \<longrightarrow> (\<exists>r. entities s = Some r \<and> r \<noteq> e' \<and> p_uuid (ents wx r) = Some s))
           \<longrightarrow> (let wi = fromJSON M B e' j wx; wr = resolveReferences entities e' wi in
                name (ents wr e') = name (ents w e)
              \<and> p_position (ents wr e') = p_position (ents w e)
              \<and> p_rotation (ents wr e') = p_rotation (ents w e)
              \<and> p_scale (ents wr e') = p_scale (ents w e)
              \<and> p_uuid (ents wr e') = p_uuid (ents wx e)
              \<and> map (link_id wr) (children (ents wr e')) = map (link_id wx) (children (ents wx e))
              \<and> map (link_id wr) (neighbors (ents wr e')) = map (link_id wx) (neighbors (ents wx e))
              \<and> map_option (link_id wr) (parent (ents wr e'))
                  = map_option (link_id wx) (parent (ents wx e))
              \<and> p_localMatrixDirty (ents wi e') \<and> p_worldMatrixDirty (ents wi e')
              \<and> p_localMatrixDirty (ents wr e') \<and> p_worldMatrixDirty (ents wr e')
              \<and> (\<forall>k. rooted k wr e' \<longrightarrow>
                    (\<exists>wm w'. get_worldMatrix B e' wr = Some (Inr wm, w')
                       \<and> p_localMatrix (ents w' e') =
                           Matrix_ComposeToRef B (p_scale (ents w e)) (p_rotation (ents w e))
                             (p_position (ents w e))
                       \<and> wm = (case parent (ents wr e') of
                                  Some (Ent p) \<Rightarrow>
                                    Matrix_multiply B
                                      (Matrix_ComposeToRef B (p_scale (ents w e))
                                         (p_rotation (ents w e)) (p_position (ents w e)))
                                      (p_worldMatrix (ents w' p))
                                | _ \<Rightarrow>
                                    Matrix_ComposeToRef B (p_scale (ents w e))
                                      (p_rotation (ents w e)) (p_position (ents w e)))))))"
      by - (rule exI [of _ j], rule exI [of _ wx], intro conjI)
  qed
qed

theorem export_import_resolve_roundtrip_witness:
  "rooted 1 family_scene 1 \<and> list_all is_Ent (neighbors (ents family_scene 1))
   \<and> toJSON exact_Math exact_Babylon 1 family_scene = Some (Inr family_json, family_exported)
   \<and> (\<forall>s. Uid s \<in> set (j_children family_json) \<union> set (j_neighbors family_json) \<union> set_option (j_parent family_json)
                \<longrightarrow> (\<exists>r. family_entities s = Some r \<and> r \<noteq> 2 \<and> p_uuid (ents family_exported r) = Some s))
   \<and> name (ents family_resolved 2) = ''hero''
   \<and> p_position (ents family_resolved 2) = Vector3 3 1 0
   \<and> p_uuid (ents family_resolved 2) = Some ''hero-uuid''
   \<and> map (link_id family_resolved) (children (ents family_resolved 2)) = [Uid ''child-uuid'']
   \<and> map (link_id family_resolved) (neighbors (ents family_resolved 2)) = [Uid ''neighbor-uuid'']
   \<and> map_option (link_id family_resolved) (parent (ents family_resolved 2))
       = Some (Uid ''parent-uuid'')
   \<and> p_localMatrixDirty (ents family_resolved 2) \<and> p_worldMatrixDirty (ents family_resolved 2)
   \<and> rooted 1 family_resolved 2
   \<and> (\<exists>wm w'. get_worldMatrix exact_Babylon 2 family_resolved = Some (Inr wm, w')
         \<and> p_localMatrix (ents w' 2) = Matrix 1 0 0 0  0 1 0 0  0 0 1 0  3 1 0 1)
   \<and> map_option fst (get_worldMatrix exact_Babylon 2 family_resolved)
       = Some (Inr (Matrix 1 0 0 0  0 1 0 0  0 0 1 0  4 1 3 1))"
proof -
  note t = export_import_resolve_roundtrip
             [where M = exact_Math and B = exact_Babylon and e = 1 and w = family_scene and n = 1,
              THEN mp, OF conjI [OF family_eval(2) family_eval(3)]]
  from t obtain j wx where
    tj: "toJSON exact_Math exact_Babylon 1 family_scene = Some (Inr j, wx)"
    and a2: "p_uuid (ents wx 1) = Some (j_uuid j)"
    and a3: "list_all is_Uid (map (link_id wx) (children (ents wx 1)))"
    and a4: "list_all is_Uid (map (link_id wx) (neighbors (ents wx 1)))"
    and a5: "(\<forall>l. parent (ents wx 1) = Some l \<longrightarrow> is_Uid (link_id wx l))"
    and imp: "(\<forall>entities e'.
           (\<forall>s. Uid s \<in> set (j_children j) \<union> set (j_neighbors j) \<union> set_option (j_parent j)
                \<longrightarrow> (\<exists>r. entities s = Some r \<and> r \<noteq> e' \<and> p_uuid (ents wx r) = Some s))
           \<longrightarrow> (let wi = fromJSON exact_Math exact_Babylon e' j wx; wr = resolveReferences entities e' wi in
                name (ents wr e') = name (ents family_scene 1)
              \<and> p_position (ents wr e') = p_position (ents family_scene 1)
              \<and> p_rotation (ents wr e') = p_rotation (ents family_scene 1)
              \<and> p_scale (ents wr e') = p_scale (ents family_scene 1)
              \<and> p_uuid (ents wr e') = p_uuid (ents wx 1)
              \<and> map (link_id wr) (children (ents wr e')) = map (link_id wx) (children (ents wx 1))
              \<and> map (link_id wr) (neighbors (ents wr e')) = map (link_id wx) (neighbors (ents wx 1))
              \<and> map_option (link_id wr) (parent (ents wr e'))
                  = map_option (link_id wx) (parent (ents wx 1))
              \<and> p_localMatrixDirty (ents wi e') \<and> p_worldMatrixDirty (ents wi e')
              \<and> p_localMatrixDirty (ents wr e') \<and> p_worldMatrixDirty (ents wr e')
              \<and> (\<forall>k. rooted k wr e' \<longrightarrow>
                    (\<exists>wm w'. get_worldMatrix exact_Babylon e' wr = Some (Inr wm, w')
                       \<and> p_localMatrix (ents w' e') =
                           Matrix_ComposeToRef exact_Babylon (p_scale (ents family_scene 1)) (p_rotation (ents family_scene 1))
                             (p_position (ents family_scene 1))
                       \<and> wm = (case parent (ents wr e') of
                                  Some (Ent p) \<Rightarrow>
                                    Matrix_multiply exact_Babylon
                                      (Matrix_ComposeToRef exact_Babylon (p_scale (ents family_scene 1))
                                         (p_rotation (ents family_scene 1)) (p_position (ents family_scene 1)))
                                      (p_worldMatrix (ents w' p))
                                | _ \<Rightarrow>
                                    Matrix_ComposeToRef exact_Babylon (p_scale (ents family_scene 1))
                                      (p_rotation (ents family_scene 1)) (p_position (ents family_scene 1)))))))"
    by (elim exE conjE) (rule that)
  from tj family_eval(1) have j: "j = family_json" and wx: "wx = family_exported" by simp_all
  have H: "(\<forall>s. Uid s \<in> set (j_children family_json) \<union> set (j_neighbors family_json) \<union> set_option (j_parent family_json)
                \<longrightarrow> (\<exists>r. family_entities s = Some r \<and> r \<noteq> 2 \<and> p_uuid (ents family_exported r) = Some s))"
    using family_exported_eval by (auto simp: family_json_def family_entities_def)
  note L = imp [unfolded j wx, THEN spec, THEN spec, THEN mp, OF H]
  note c = L [unfolded Let_def, folded family_resolved_def]
  note c1 = c [THEN conjunct1]
  note c2 = c [THEN conjunct2, THEN conjunct1]
  note c5 = c [THEN conjunct2, THEN conjunct2, THEN conjunct2, THEN conjunct2, THEN conjunct1]
  note d = c [THEN conjunct2, THEN conjunct2, THEN conjunct2, THEN conjunct2, THEN conjunct2]
  note c6 = d [THEN conjunct1]
  note c7 = d [THEN conjunct2, THEN conjunct1]
  note c8 = d [THEN conjunct2, THEN conjunct2, THEN conjunct1]
  note f = d [THEN conjunct2, THEN conjunct2, THEN conjunct2, THEN conjunct2, THEN conjunct2]
  note c11 = f [THEN conjunct1]
  note c12 = f [THEN conjunct2, THEN conjunct1]
  note c13 = f [THEN conjunct2, THEN conjunct2]
  have 1: "name (ents family_resolved 2) = ''hero''" using c1 family_scene_eval(1) by simp
  have 2: "p_position (ents family_resolved 2) = Vector3 3 1 0" using c2 family_scene_eval(2) by simp
  have 5: "p_uuid (ents family_resolved 2) = Some ''hero-uuid''"
    using c5 family_exported_eval(2) by simp
  have 6: "map (link_id family_resolved) (children (ents family_resolved 2)) = [Uid ''child-uuid'']"
    using c6 family_exported_eval by (simp add: link_id_def)
  have 7: "map (link_id family_resolved) (neighbors (ents family_resolved 2)) = [Uid ''neighbor-uuid'']"
    using c7 family_exported_eval by (simp add: link_id_def)
  have 8: "map_option (link_id family_resolved) (parent (ents family_resolved 2))
       = Some (Uid ''parent-uuid'')"
    using c8 family_exported_eval by (simp add: link_id_def)
  from c13 [THEN spec, THEN mp, OF family_resolved_eval(1)] obtain wm w' where
    g: "get_worldMatrix exact_Babylon 2 family_resolved = Some (Inr wm, w')"
    and l: "p_localMatrix (ents w' 2) =
              Matrix_ComposeToRef exact_Babylon (p_scale (ents family_scene 1))
                (p_rotation (ents family_scene 1)) (p_position (ents family_scene 1))"
    by blast
  from l have "p_localMatrix (ents w' 2) = Matrix 1 0 0 0  0 1 0 0  0 0 1 0  3 1 0 1"
    using family_scene_eval by (simp add: exact_Babylon_def compose_def)
  with g have 13: "\<exists>wm w'. get_worldMatrix exact_Babylon 2 family_resolved = Some (Inr wm, w')
         \<and> p_localMatrix (ents w' 2) = Matrix 1 0 0 0  0 1 0 0  0 0 1 0  3 1 0 1"
    by blast
  from family_eval(2) family_eval(3) family_eval(1) H 1 2 5 6 7 8 c11 c12 family_resolved_eval(1) 13
    family_resolved_eval(2)
  show ?thesis by (intro conjI)
qed

end
